theory Spec2Isabelle
  imports Complex_Main "HOL-Library.Log_Nat"
begin

section \<open>Python values\<close>

text \<open>
  Both handlers are Python. The values they compute with are modelled as Python has
  them: unbounded integers as \<open>int\<close>, and a \<open>float\<close> as an IEEE 754 binary64 value.
  A finite double is held by the rational number it denotes (\<open>-0.0\<close> is identified
  with \<open>0.0\<close>: both are falsy and both convert to the integer 0, and nothing below
  tells them apart); the two infinities and NaN are constructors of their own.
\<close>

datatype pyfloat = Finite rat | PosInf | NegInf | NaN

text \<open>
  The exceptions that can reach the handlers' \<open>except\<close> clauses. \<open>DatabaseError\<close> stands for
  every failure of the persistence layer that is not an \<open>IntegrityError\<close>; it carries the
  internal detail of the failure.
\<close>

datatype exn =
    ValueError
  | TypeError
  | KeyError
  | OverflowError
  | ZeroDivisionError
  | IntegrityError
  | DatabaseError string

subsection \<open>Rounding to binary64\<close>

definition ilog2 :: "rat \<Rightarrow> int" where
  \<comment> \<open>\<open>\<lfloor>log\<^sub>2 \<bar>x\<bar>\<rfloor>\<close> for \<open>x \<noteq> 0\<close>, from the bit lengths of numerator and denominator.\<close>
  "ilog2 x =
     (let a = fst (quotient_of \<bar>x\<bar>); b = snd (quotient_of \<bar>x\<bar>);
          k = bitlen a - bitlen b
      in if 2 powi k \<le> \<bar>x\<bar> then k else k - 1)"

definition round_half_even :: "rat \<Rightarrow> int" where
  "round_half_even r =
     (let f = \<lfloor>r\<rfloor>; d = r - of_int f
      in if d < 1 / 2 then f
         else if 1 / 2 < d then f + 1
         else if even f then f else f + 1)"

definition round_double :: "rat \<Rightarrow> pyfloat" where
  \<comment> \<open>Round to nearest, ties to even, with 53 significant bits; below \<open>2\<^sup>-\<^sup>1\<^sup>0\<^sup>2\<^sup>2\<close> the
      spacing stays \<open>2\<^sup>-\<^sup>1\<^sup>0\<^sup>7\<^sup>4\<close> (subnormal numbers); a result of magnitude \<open>2\<^sup>1\<^sup>0\<^sup>2\<^sup>4\<close> or more
      is an infinity.\<close>
  "round_double x =
     (if x = 0 then Finite 0
      else
        let e = max (ilog2 x - 52) (- 1074);
            y = of_int (round_half_even (x / 2 powi e)) * 2 powi e
        in if 2 ^ 1024 \<le> y then PosInf
           else if y \<le> - (2 ^ 1024) then NegInf
           else Finite y)"

subsection \<open>Conversions and division\<close>

definition float_of_int :: "int \<Rightarrow> exn + pyfloat" where
  \<comment> \<open>\<open>float(n)\<close>, and the conversion of an \<open>int\<close> operand in mixed arithmetic:
      \<open>OverflowError\<close> when \<open>n\<close> is too large for a double.\<close>
  "float_of_int n =
     (case round_double (of_int n) of
        Finite y \<Rightarrow> Inr (Finite y)
      | _ \<Rightarrow> Inl OverflowError)"

definition int_of_float :: "pyfloat \<Rightarrow> exn + int" where
  \<comment> \<open>\<open>int(f)\<close>: truncation toward zero.\<close>
  "int_of_float f =
     (case f of
        Finite r \<Rightarrow> Inr (if 0 \<le> r then \<lfloor>r\<rfloor> else \<lceil>r\<rceil>)
      | PosInf \<Rightarrow> Inl OverflowError
      | NegInf \<Rightarrow> Inl OverflowError
      | NaN \<Rightarrow> Inl ValueError)"

definition int_truediv :: "int \<Rightarrow> int \<Rightarrow> exn + pyfloat" where
  \<comment> \<open>\<open>a / b\<close> on two \<open>int\<close>s: the correctly rounded quotient.\<close>
  "int_truediv a b =
     (if b = 0 then Inl ZeroDivisionError
      else case round_double (of_int a / of_int b) of
        Finite y \<Rightarrow> Inr (Finite y)
      | _ \<Rightarrow> Inl OverflowError)"

fun float_truediv :: "pyfloat \<Rightarrow> pyfloat \<Rightarrow> exn + pyfloat" where
  \<comment> \<open>\<open>x / y\<close> on two \<open>float\<close>s: IEEE division, except that a zero divisor raises.\<close>
  "float_truediv x (Finite b) =
     (if b = 0 then Inl ZeroDivisionError
      else case x of
        Finite a \<Rightarrow> Inr (round_double (a / b))
      | PosInf \<Rightarrow> Inr (if 0 < b then PosInf else NegInf)
      | NegInf \<Rightarrow> Inr (if 0 < b then NegInf else PosInf)
      | NaN \<Rightarrow> Inr NaN)"
| "float_truediv (Finite a) PosInf = Inr (Finite 0)"
| "float_truediv (Finite a) NegInf = Inr (Finite 0)"
| "float_truediv x y = Inr NaN"

definition int_float_truediv :: "int \<Rightarrow> pyfloat \<Rightarrow> exn + pyfloat" where
  \<comment> \<open>\<open>n / y\<close> with \<open>n\<close> an \<open>int\<close> and \<open>y\<close> a \<open>float\<close>: \<open>n\<close> is converted first.\<close>
  "int_float_truediv n y =
     (case float_of_int n of
        Inl e \<Rightarrow> Inl e
      | Inr x \<Rightarrow> float_truediv x y)"

definition float_gt_zero :: "pyfloat \<Rightarrow> bool" where
  "float_gt_zero f = (case f of Finite r \<Rightarrow> 0 < r | PosInf \<Rightarrow> True | _ \<Rightarrow> False)"


section \<open>The request body\<close>

text \<open>
  \<open>request.json\<close> is whatever JSON document the request carries; \<open>JNull\<close> is Python's
  \<open>None\<close> (also what the handler sees when the request has no JSON body). An object is
  held as the list of its items, looked up from the front.
\<close>

datatype json =
    JNull
  | JBool bool
  | JInt int
  | JFloat pyfloat
  | JStr string
  | JArr "json list"
  | JObj "(string \<times> json) list"

text \<open>
  \<open>float(s)\<close> and \<open>int(s)\<close> on a string parse it; the grammar is the interpreter's and is
  taken as a parameter (\<open>None\<close> is the \<open>ValueError\<close> of a string that does not parse).
\<close>

record builtins =
  str_to_float :: "string \<Rightarrow> pyfloat option"
  str_to_int :: "string \<Rightarrow> int option"

fun truthy :: "json \<Rightarrow> bool" where
  "truthy JNull = False"
| "truthy (JBool b) = b"
| "truthy (JInt n) = (n \<noteq> 0)"
| "truthy (JFloat f) = (f \<noteq> Finite 0)"
| "truthy (JStr s) = (s \<noteq> [])"
| "truthy (JArr xs) = (xs \<noteq> [])"
| "truthy (JObj kvs) = (kvs \<noteq> [])"

fun substring :: "string \<Rightarrow> string \<Rightarrow> bool" where
  "substring f [] = (f = [])"
| "substring f (c # cs) = (take (length f) (c # cs) = f \<or> substring f cs)"

fun py_contains :: "json \<Rightarrow> string \<Rightarrow> exn + bool" where
  \<comment> \<open>\<open>field in data\<close>: a key of a dict, an element of a list, a substring of a string;
      anything else is not iterable.\<close>
  "py_contains (JObj kvs) field = Inr (field \<in> set (map fst kvs))"
| "py_contains (JArr xs) field = Inr (JStr field \<in> set xs)"
| "py_contains (JStr s) field = Inr (substring field s)"
| "py_contains _ field = Inl TypeError"

fun all_in :: "json \<Rightarrow> string list \<Rightarrow> exn + bool" where
  \<comment> \<open>\<open>all(field in data for field in fields)\<close>, stopping at the first miss.\<close>
  "all_in data [] = Inr True"
| "all_in data (f # fs) =
     (case py_contains data f of
        Inl e \<Rightarrow> Inl e
      | Inr False \<Rightarrow> Inr False
      | Inr True \<Rightarrow> all_in data fs)"

fun py_getitem :: "json \<Rightarrow> string \<Rightarrow> exn + json" where
  \<comment> \<open>\<open>data[key]\<close> with a string key.\<close>
  "py_getitem (JObj kvs) key =
     (case map_of kvs key of None \<Rightarrow> Inl KeyError | Some v \<Rightarrow> Inr v)"
| "py_getitem _ key = Inl TypeError"

fun py_float :: "builtins \<Rightarrow> json \<Rightarrow> exn + pyfloat" where
  "py_float bi JNull = Inl TypeError"
| "py_float bi (JBool b) = Inr (Finite (if b then 1 else 0))"
| "py_float bi (JInt n) = float_of_int n"
| "py_float bi (JFloat f) = Inr f"
| "py_float bi (JStr s) =
     (case str_to_float bi s of None \<Rightarrow> Inl ValueError | Some f \<Rightarrow> Inr f)"
| "py_float bi (JArr xs) = Inl TypeError"
| "py_float bi (JObj kvs) = Inl TypeError"

fun py_int :: "builtins \<Rightarrow> json \<Rightarrow> exn + int" where
  "py_int bi JNull = Inl TypeError"
| "py_int bi (JBool b) = Inr (if b then 1 else 0)"
| "py_int bi (JInt n) = Inr n"
| "py_int bi (JFloat f) = int_of_float f"
| "py_int bi (JStr s) =
     (case str_to_int bi s of None \<Rightarrow> Inl ValueError | Some n \<Rightarrow> Inr n)"
| "py_int bi (JArr xs) = Inl TypeError"
| "py_int bi (JObj kvs) = Inl TypeError"

section \<open>The persistence layer seen by \<open>create_product\<close>\<close>

text \<open>
  The ORM objects hold what the handler assigns: \<open>name\<close>, \<open>sku\<close> and \<open>warehouse_id\<close> are
  the request's values as they came, \<open>price\<close> and \<open>quantity\<close> the coerced numbers.
\<close>

record product =
  p_id :: int
  p_name :: json
  p_sku :: json
  p_price :: pyfloat
  p_warehouse_id :: json

record inventory =
  i_product_id :: int
  i_warehouse_id :: json
  i_quantity :: int

text \<open>An object handed to \<open>db.session.add\<close>; a product has no id before the flush.\<close>

datatype orm_object =
    NewProduct json json pyfloat json
  | NewInventory int json int

text \<open>
  What the handler asks of the persistence layer, in the order it asks, with the two
  numeric coercions in between (the value coerced and whether the coercion succeeded).
  \<open>Refresh\<close> is the SELECT that loads \<open>product.id\<close> again when the attribute is read after
  the commit: the commit expires the attributes of the session's objects.
\<close>

datatype event =
    SkuLookup json
  | Coerce string json bool
  | Add orm_object
  | Flush
  | Commit
  | Refresh
  | Rollback

record tables =
  products :: "product list"
  inventories :: "inventory list"

record session =
  committed :: tables
  in_tx :: tables
  pending :: "orm_object list"
  log :: "event list"

text \<open>
  The session and the database are SQLAlchemy's, not this repository's. Their failures
  are the environment's choice: each of the calls that reach the database (the SKU
  lookup, the flush, the commit) either goes through or raises, an \<open>IntegrityError\<close> when
  a constraint is violated (the uniqueness of the SKU, lost in a race with a concurrent
  insert) and a \<open>DatabaseError\<close> otherwise. The read of \<open>product.id\<close> after the commit
  reaches the database too; it is a SELECT, which violates no constraint, so its failure
  is a \<open>DatabaseError\<close> with its detail. The ids the database assigns are the
  environment's too.
\<close>

datatype db_failure = Integrity | Other string

fun raised :: "db_failure \<Rightarrow> exn" where
  "raised Integrity = IntegrityError"
| "raised (Other detail) = DatabaseError detail"

record env =
  lookup_fails :: "db_failure option"
  flush_fails :: "db_failure option"
  commit_fails :: "db_failure option"
  refresh_fails :: "string option"
  next_id :: int

definition record_event :: "event \<Rightarrow> session \<Rightarrow> session" where
  "record_event ev s = s\<lparr>log := log s @ [ev]\<rparr>"

definition first_by_sku :: "env \<Rightarrow> json \<Rightarrow> session \<Rightarrow> (exn + product option) \<times> session" where
  \<comment> \<open>\<open>Product.query.filter_by(sku=sku).first()\<close>\<close>
  "first_by_sku en sku s =
     (let s' = record_event (SkuLookup sku) s
      in case lookup_fails en of
           Some f \<Rightarrow> (Inl (raised f), s')
         | None \<Rightarrow>
             (Inr (find (\<lambda>p. p_sku p = sku) (products (committed s) @ products (in_tx s))), s'))"

definition session_add :: "orm_object \<Rightarrow> session \<Rightarrow> session" where
  "session_add obj s = record_event (Add obj) (s\<lparr>pending := pending s @ [obj]\<rparr>)"

fun insert_all :: "int \<Rightarrow> orm_object list \<Rightarrow> tables \<Rightarrow> tables" where
  \<comment> \<open>The INSERTs of a flush, in the order the objects were added.\<close>
  "insert_all n [] t = t"
| "insert_all n (NewProduct name sku price wid # objs) t =
     insert_all (n + 1) objs
       (t\<lparr>products := products t @
            [\<lparr>p_id = n, p_name = name, p_sku = sku, p_price = price, p_warehouse_id = wid\<rparr>]\<rparr>)"
| "insert_all n (NewInventory pid wid qty # objs) t =
     insert_all n objs
       (t\<lparr>inventories := inventories t @
            [\<lparr>i_product_id = pid, i_warehouse_id = wid, i_quantity = qty\<rparr>]\<rparr>)"

definition session_flush :: "env \<Rightarrow> session \<Rightarrow> (exn + unit) \<times> session" where
  "session_flush en s =
     (let s' = record_event Flush s
      in case flush_fails en of
           Some f \<Rightarrow> (Inl (raised f), s')
         | None \<Rightarrow>
             (Inr (), s'\<lparr>in_tx := insert_all (next_id en) (pending s') (in_tx s'), pending := []\<rparr>))"

definition session_commit :: "env \<Rightarrow> session \<Rightarrow> (exn + unit) \<times> session" where
  \<comment> \<open>\<open>db.session.commit()\<close>: what is still pending is inserted, then the transaction's
      rows become the committed ones.\<close>
  "session_commit en s =
     (let s' = record_event Commit s
      in case commit_fails en of
           Some f \<Rightarrow> (Inl (raised f), s')
         | None \<Rightarrow>
             (let t = insert_all (next_id en) (pending s') (in_tx s')
              in (Inr (),
                  s'\<lparr>committed := \<lparr>products = products (committed s') @ products t,
                                    inventories = inventories (committed s') @ inventories t\<rparr>,
                     in_tx := \<lparr>products = [], inventories = []\<rparr>,
                     pending := []\<rparr>)))"

definition session_refresh :: "env \<Rightarrow> session \<Rightarrow> (exn + unit) \<times> session" where
  \<comment> \<open>The load of an expired attribute of an object the session holds, by primary key:
      it changes no row.\<close>
  "session_refresh en s =
     (let s' = record_event Refresh s
      in case refresh_fails en of
           Some detail \<Rightarrow> (Inl (DatabaseError detail), s')
         | None \<Rightarrow> (Inr (), s'))"

definition session_rollback :: "session \<Rightarrow> session" where
  "session_rollback s =
     record_event Rollback (s\<lparr>in_tx := \<lparr>products = [], inventories = []\<rparr>, pending := []\<rparr>)"


section \<open>\<open>create_product\<close>\<close>

definition required_fields :: "string list" where
  "required_fields = [''name'', ''sku'', ''price'', ''warehouse_id'', ''initial_quantity'']"

text \<open>
  The JSON bodies of the responses. \<open>SkuExistsBody v\<close> is
  \<open>{"error": f"Product with SKU '{v}' already exists"}\<close>, with the value left unformatted;
  \<open>CreatedBody m n\<close> is \<open>{"message": m, "product_id": n}\<close>.
\<close>

datatype body =
    ErrorBody string
  | SkuExistsBody json
  | CreatedBody string int

type_synonym response = "body \<times> nat"

definition coerce_price :: "builtins \<Rightarrow> json \<Rightarrow> session \<Rightarrow> (exn + pyfloat) \<times> session" where
  \<comment> \<open>\<open>float(data['price'])\<close>\<close>
  "coerce_price bi v s =
     (case py_float bi v of
        Inl e \<Rightarrow> (Inl e, record_event (Coerce ''price'' v False) s)
      | Inr f \<Rightarrow> (Inr f, record_event (Coerce ''price'' v True) s))"

definition coerce_quantity :: "builtins \<Rightarrow> json \<Rightarrow> session \<Rightarrow> (exn + int) \<times> session" where
  \<comment> \<open>\<open>int(data['initial_quantity'])\<close>\<close>
  "coerce_quantity bi v s =
     (case py_int bi v of
        Inl e \<Rightarrow> (Inl e, record_event (Coerce ''initial_quantity'' v False) s)
      | Inr n \<Rightarrow> (Inr n, record_event (Coerce ''initial_quantity'' v True) s))"

definition flushed_product_id :: "session \<Rightarrow> int" where
  \<comment> \<open>\<open>product.id\<close> after the flush: the id of the row inserted for the product, which
      is the last product the session added.\<close>
  "flushed_product_id s = p_id (last (products (in_tx s)))"

definition create_inventory ::
  "builtins \<Rightarrow> env \<Rightarrow> json \<Rightarrow> session \<Rightarrow> (exn + response) \<times> session" where
  \<comment> \<open>Lines 32 to 46: the inventory object, the commit and the 201 response, whose
      \<open>product.id\<close> is read after the commit.\<close>
  "create_inventory bi en data s =
     (let pid = flushed_product_id s in
      case py_getitem data ''warehouse_id'' of
        Inl e \<Rightarrow> (Inl e, s)
      | Inr wid \<Rightarrow>
      (case py_getitem data ''initial_quantity'' of
        Inl e \<Rightarrow> (Inl e, s)
      | Inr qv \<Rightarrow>
      (case coerce_quantity bi qv s of
        (Inl e, s1) \<Rightarrow> (Inl e, s1)
      | (Inr qty, s1) \<Rightarrow>
      (case session_commit en (session_add (NewInventory pid wid qty) s1) of
        (Inl e, s2) \<Rightarrow> (Inl e, s2)
      | (Inr u, s2) \<Rightarrow>
      (case session_refresh en s2 of
        (Inl e, s3) \<Rightarrow> (Inl e, s3)
      | (Inr u', s3) \<Rightarrow>
          (Inr (CreatedBody ''Product created successfully'' pid, 201), s3))))))"

definition create_new_product ::
  "builtins \<Rightarrow> env \<Rightarrow> json \<Rightarrow> session \<Rightarrow> (exn + response) \<times> session" where
  \<comment> \<open>Lines 22 to 30: the product object, \<open>add\<close> and \<open>flush\<close>; then the inventory.\<close>
  "create_new_product bi en data s =
     (case py_getitem data ''name'' of
        Inl e \<Rightarrow> (Inl e, s)
      | Inr name \<Rightarrow>
      (case py_getitem data ''sku'' of
        Inl e \<Rightarrow> (Inl e, s)
      | Inr sku \<Rightarrow>
      (case py_getitem data ''price'' of
        Inl e \<Rightarrow> (Inl e, s)
      | Inr pv \<Rightarrow>
      (case coerce_price bi pv s of
        (Inl e, s1) \<Rightarrow> (Inl e, s1)
      | (Inr price, s1) \<Rightarrow>
      (case py_getitem data ''warehouse_id'' of
        Inl e \<Rightarrow> (Inl e, s1)
      | Inr wid \<Rightarrow>
      (case session_flush en (session_add (NewProduct name sku price wid) s1) of
        (Inl e, s2) \<Rightarrow> (Inl e, s2)
      | (Inr u, s2) \<Rightarrow> create_inventory bi en data s2))))))"

definition create_product_try ::
  "builtins \<Rightarrow> env \<Rightarrow> json \<Rightarrow> session \<Rightarrow> (exn + response) \<times> session" where
  \<comment> \<open>The body of the \<open>try\<close>, lines 17 to 46: what it returns or raises, and the session
      it leaves.\<close>
  "create_product_try bi en data s =
     (case py_getitem data ''sku'' of
        Inl e \<Rightarrow> (Inl e, s)
      | Inr sku \<Rightarrow>
      (case first_by_sku en sku s of
        (Inl e, s1) \<Rightarrow> (Inl e, s1)
      | (Inr (Some existing), s1) \<Rightarrow>
          (case py_getitem data ''sku'' of
             Inl e \<Rightarrow> (Inl e, s1)
           | Inr shown \<Rightarrow> (Inr (SkuExistsBody shown, 409), s1))
      | (Inr None, s1) \<Rightarrow> create_new_product bi en data s1))"

definition missing_fields :: "json \<Rightarrow> exn + bool" where
  \<comment> \<open>\<open>not data or not all(field in data for field in required_fields)\<close>\<close>
  "missing_fields data =
     (if \<not> truthy data then Inr True
      else case all_in data required_fields of
             Inl e \<Rightarrow> Inl e
           | Inr b \<Rightarrow> Inr (\<not> b))"

definition error_response :: "exn \<Rightarrow> response" where
  \<comment> \<open>The three \<open>except\<close> clauses of lines 48 to 57, tried in their order.\<close>
  "error_response e =
     (if e = ValueError \<or> e = TypeError then
        (ErrorBody ''Invalid data type for price or initial_quantity'', 400)
      else if e = IntegrityError then
        (ErrorBody ''Database integrity error. SKU might already exist.'', 409)
      else
        (ErrorBody ''An unexpected error occurred.'', 500))"

definition create_product ::
  "builtins \<Rightarrow> env \<Rightarrow> json \<Rightarrow> session \<Rightarrow> (exn + response) \<times> session" where
  \<comment> \<open>The handler. \<open>Inl\<close> is an exception that leaves the handler uncaught: only the
      check of line 13 stands outside the \<open>try\<close>. Every \<open>except\<close> clause rolls the
      session back before it answers.\<close>
  "create_product bi en data s =
     (case missing_fields data of
        Inl e \<Rightarrow> (Inl e, s)
      | Inr True \<Rightarrow> (Inr (ErrorBody ''Missing required fields'', 400), s)
      | Inr False \<Rightarrow>
          (case create_product_try bi en data s of
             (Inr r, s') \<Rightarrow> (Inr r, s')
           | (Inl e, s') \<Rightarrow> (Inr (error_response e), session_rollback s')))"

definition body_fields :: "json \<Rightarrow> json \<Rightarrow> json \<Rightarrow> json \<Rightarrow> json \<Rightarrow> json \<Rightarrow> bool" where
  \<comment> \<open>The body passes the check of line 13 and these are the values of its five fields.\<close>
  "body_fields data name sku pv wid qv =
     (missing_fields data = Inr False
      \<and> py_getitem data ''name'' = Inr name
      \<and> py_getitem data ''sku'' = Inr sku
      \<and> py_getitem data ''price'' = Inr pv
      \<and> py_getitem data ''warehouse_id'' = Inr wid
      \<and> py_getitem data ''initial_quantity'' = Inr qv)"

definition fresh :: "session \<Rightarrow> bool" where
  \<comment> \<open>The session at the start of a request: nothing added, no open transaction.\<close>
  "fresh s = (pending s = [] \<and> products (in_tx s) = [] \<and> inventories (in_tx s) = [])"

definition is_write :: "event \<Rightarrow> bool" where
  "is_write ev = (case ev of Add obj \<Rightarrow> True | Flush \<Rightarrow> True | Commit \<Rightarrow> True | _ \<Rightarrow> False)"

definition trace :: "session \<Rightarrow> session \<Rightarrow> event list" where
  \<comment> \<open>The events of one run: what the log gained between its first and its last session.\<close>
  "trace s s' = drop (length (log s)) (log s')"

definition is_lookup :: "event \<Rightarrow> bool" where
  "is_lookup ev = (case ev of SkuLookup v \<Rightarrow> True | _ \<Rightarrow> False)"

definition db_raised :: "env \<Rightarrow> event list \<Rightarrow> db_failure option" where
  \<comment> \<open>The failure that the SKU lookup, the flush or the commit raised in a run with these
      events, if one of them raised: a call that was made fails when the environment says
      so, and a failed call is the run's last.\<close>
  "db_raised en evs =
     (if list_ex is_lookup evs \<and> lookup_fails en \<noteq> None then lookup_fails en
      else if Flush \<in> set evs \<and> flush_fails en \<noteq> None then flush_fails en
      else if Commit \<in> set evs \<and> commit_fails en \<noteq> None then commit_fails en
      else None)"

definition coerced :: "string \<Rightarrow> event \<Rightarrow> bool" where
  \<comment> \<open>The event is the successful coercion of this field.\<close>
  "coerced field ev = (case ev of Coerce f v ok \<Rightarrow> f = field \<and> ok | _ \<Rightarrow> False)"

fun writes_follow :: "bool \<Rightarrow> bool \<Rightarrow> event list \<Rightarrow> bool" where
  \<comment> \<open>No write stands in the events before both numeric fields have been coerced with
      success; the two flags say which of them already has been.\<close>
  "writes_follow price_ok quantity_ok [] = True"
| "writes_follow price_ok quantity_ok (ev # evs) =
     (if is_write ev then price_ok \<and> quantity_ok \<and> writes_follow price_ok quantity_ok evs
      else
        writes_follow
          (price_ok \<or> coerced ''price'' ev)
          (quantity_ok \<or> coerced ''initial_quantity'' ev)
          evs)"

definition receives_null :: "event \<Rightarrow> bool" where
  \<comment> \<open>The SKU lookup, or one of the two numeric coercions, with a null for its value.\<close>
  "receives_null ev =
     (case ev of
        SkuLookup v \<Rightarrow> v = JNull
      | Coerce f v ok \<Rightarrow> (f = ''price'' \<or> f = ''initial_quantity'') \<and> v = JNull
      | _ \<Rightarrow> False)"

definition null_reaches_lookup_or_coercion :: "event list \<Rightarrow> bool" where
  \<comment> \<open>A null is what the SKU lookup or one of the two numeric coercions received.\<close>
  "null_reaches_lookup_or_coercion evs = list_ex receives_null evs"

subsection \<open>Concrete requests\<close>

definition no_numeric_strings :: builtins where
  "no_numeric_strings = \<lparr>str_to_float = (\<lambda>s. None), str_to_int = (\<lambda>s. None)\<rparr>"

definition no_faults :: env where
  "no_faults =
     \<lparr>lookup_fails = None, flush_fails = None, commit_fails = None, refresh_fails = None,
      next_id = 7\<rparr>"

definition empty_session :: session where
  "empty_session =
     \<lparr>committed = \<lparr>products = [], inventories = []\<rparr>,
      in_tx = \<lparr>products = [], inventories = []\<rparr>,
      pending = [], log = []\<rparr>"

definition widget :: product where
  "widget =
     \<lparr>p_id = 1, p_name = JStr ''Widget'', p_sku = JStr ''A-1'', p_price = Finite 2,
      p_warehouse_id = JInt 3\<rparr>"

definition session_with_widget :: session where
  "session_with_widget = empty_session\<lparr>committed := \<lparr>products = [widget], inventories = []\<rparr>\<rparr>"

definition request_body :: "json \<Rightarrow> json \<Rightarrow> json \<Rightarrow> json \<Rightarrow> json \<Rightarrow> json" where
  "request_body name sku price wid qty =
     JObj [(''name'', name), (''sku'', sku), (''price'', price), (''warehouse_id'', wid),
           (''initial_quantity'', qty)]"

definition gadget_body :: json where
  "gadget_body =
     request_body (JStr ''Gadget'') (JStr ''B-2'') (JFloat (Finite (19 / 2))) (JInt 3) (JInt 5)"

definition gadget_run :: "(exn + response) \<times> session" where
  \<comment> \<open>A request that goes through.\<close>
  "gadget_run = create_product no_numeric_strings no_faults gadget_body empty_session"

definition duplicate_run :: "(exn + response) \<times> session" where
  \<comment> \<open>The SKU of the request is the one of a product already there.\<close>
  "duplicate_run =
     create_product no_numeric_strings no_faults
       (request_body (JStr ''Widget'') (JStr ''A-1'') (JFloat (Finite 2)) (JInt 3) (JInt 5))
       session_with_widget"

definition race_run :: "(exn + response) \<times> session" where
  \<comment> \<open>The SKU is free at the lookup and taken by a concurrent insert before the flush.\<close>
  "race_run =
     create_product no_numeric_strings (no_faults\<lparr>flush_fails := Some Integrity\<rparr>)
       gadget_body empty_session"

definition outage_run :: "(exn + response) \<times> session" where
  \<comment> \<open>The database goes away at the commit.\<close>
  "outage_run =
     create_product no_numeric_strings
       (no_faults\<lparr>commit_fails := Some (Other ''connection reset by peer'')\<rparr>)
       gadget_body empty_session"

definition late_outage_run :: "(exn + response) \<times> session" where
  \<comment> \<open>The database goes away after the commit, before \<open>product.id\<close> is read for the
      response.\<close>
  "late_outage_run =
     create_product no_numeric_strings
       (no_faults\<lparr>refresh_fails := Some ''connection reset by peer''\<rparr>)
       gadget_body empty_session"

definition bad_quantity_run :: "(exn + response) \<times> session" where
  \<comment> \<open>\<open>initial_quantity\<close> is the string \<open>"abc"\<close>.\<close>
  "bad_quantity_run =
     create_product no_numeric_strings no_faults
       (request_body (JStr ''Gadget'') (JStr ''B-2'') (JFloat (Finite (19 / 2))) (JInt 3)
          (JStr ''abc''))
       empty_session"

definition null_price_run :: "(exn + response) \<times> session" where
  "null_price_run =
     create_product no_numeric_strings no_faults
       (request_body (JStr ''Gadget'') (JStr ''B-2'') JNull (JInt 3) (JInt 5))
       empty_session"

definition null_price_duplicate_run :: "(exn + response) \<times> session" where
  \<comment> \<open>A null price in a request whose SKU is already there.\<close>
  "null_price_duplicate_run =
     create_product no_numeric_strings no_faults
       (request_body (JStr ''Widget'') (JStr ''A-1'') JNull (JInt 3) (JInt 5))
       session_with_widget"

definition huge_price_run :: "(exn + response) \<times> session" where
  \<comment> \<open>The price is the integer \<open>2\<^sup>1\<^sup>0\<^sup>2\<^sup>4\<close>, written out in the JSON body.\<close>
  "huge_price_run =
     create_product no_numeric_strings no_faults
       (request_body (JStr ''Gadget'') (JStr ''B-2'') (JInt (2 ^ 1024)) (JInt 3) (JInt 5))
       empty_session"

definition null_name_run :: "(exn + response) \<times> session" where
  "null_name_run =
     create_product no_numeric_strings no_faults
       (request_body JNull (JStr ''B-2'') (JFloat (Finite (19 / 2))) (JInt 3) (JInt 5))
       empty_session"

definition null_sku_run :: "(exn + response) \<times> session" where
  "null_sku_run =
     create_product no_numeric_strings no_faults
       (request_body (JStr ''Gadget'') JNull (JFloat (Finite (19 / 2))) (JInt 3) (JInt 5))
       empty_session"

section \<open>\<open>get_low_stock_alerts\<close>\<close>

text \<open>
  Modelled from the spec: the model classes (\<open>Inventory\<close>, \<open>Product\<close>, \<open>Warehouse\<close>,
  \<open>ProductType\<close>, \<open>Supplier\<close>, \<open>SalesActivity\<close>) are not in the source. Their columns are the
  ones the handler reads, with the types of the spec's data model: integer ids,
  quantities and thresholds, strings for names, an optional product type and an
  optional supplier, and a nullable \<open>quantity_sold\<close>. A date is a count of microseconds.
\<close>

record inventory_row =
  inv_id :: int
  inv_product_id :: int
  inv_warehouse_id :: int
  inv_quantity :: int

record product_row =
  prod_id :: int
  prod_name :: string
  prod_sku :: string
  prod_type_id :: "int option"
  prod_supplier_id :: "int option"

record warehouse_row =
  wh_id :: int
  wh_name :: string
  wh_company_id :: int

record product_type_row =
  pt_id :: int
  pt_low_stock_threshold :: int

record supplier_row =
  sup_id :: int
  sup_name :: string
  sup_contact_email :: string

record sales_activity_row =
  sale_product_id :: int
  sale_warehouse_id :: int
  sale_quantity_sold :: "int option"
  sale_date :: int

record database =
  inventory_table :: "inventory_row list"
  product_table :: "product_row list"
  warehouse_table :: "warehouse_row list"
  product_type_table :: "product_type_row list"
  supplier_table :: "supplier_row list"
  sales_activity_table :: "sales_activity_row list"

type_synonym joined_row =
  "inventory_row \<times> product_row \<times> warehouse_row \<times> product_type_row \<times> supplier_row option
   \<times> sales_activity_row"

type_synonym alert_row =
  "inventory_row \<times> product_row \<times> warehouse_row \<times> product_type_row \<times> supplier_row option
   \<times> int option"

definition recent_period_days :: int where
  "recent_period_days = 30"

definition activity_since_date :: "int \<Rightarrow> int" where
  \<comment> \<open>\<open>datetime.utcnow() - timedelta(days=recent_period_days)\<close>, in microseconds.\<close>
  "activity_since_date now = now - recent_period_days * 86400000000"

definition outer_join_supplier :: "supplier_row list \<Rightarrow> product_row \<Rightarrow> supplier_row option list" where
  \<comment> \<open>\<open>.outerjoin(Supplier, Product.supplier_id == Supplier.id)\<close>: the matching suppliers,
      or one row with no supplier.\<close>
  "outer_join_supplier sups p =
     (case filter (\<lambda>s. Some (sup_id s) = prod_supplier_id p) sups of
        [] \<Rightarrow> [None]
      | ms \<Rightarrow> map Some ms)"

definition joined_rows :: "int \<Rightarrow> int \<Rightarrow> database \<Rightarrow> joined_row list" where
  \<comment> \<open>The joins and the three filters of the query.\<close>
  "joined_rows since company_id db =
     [(i, p, w, pt, s, sa).
        i \<leftarrow> inventory_table db,
        p \<leftarrow> product_table db, inv_product_id i = prod_id p,
        w \<leftarrow> warehouse_table db, inv_warehouse_id i = wh_id w,
        pt \<leftarrow> product_type_table db, prod_type_id p = Some (pt_id pt),
        s \<leftarrow> outer_join_supplier (supplier_table db) p,
        sa \<leftarrow> sales_activity_table db,
        sale_product_id sa = inv_product_id i \<and> sale_warehouse_id sa = inv_warehouse_id i,
        wh_company_id w = company_id,
        since \<le> sale_date sa,
        inv_quantity i \<le> pt_low_stock_threshold pt]"

definition group_key :: "joined_row \<Rightarrow> int \<times> int \<times> int \<times> int \<times> int option" where
  \<comment> \<open>\<open>.group_by(Inventory.id, Product.id, Warehouse.id, ProductType.id, Supplier.id)\<close>\<close>
  "group_key r =
     (case r of (i, p, w, pt, s, sa) \<Rightarrow>
        (inv_id i, prod_id p, wh_id w, pt_id pt, map_option sup_id s))"

definition sql_sum :: "int option list \<Rightarrow> int option" where
  \<comment> \<open>SQL's \<open>SUM\<close>: NULLs are skipped, and the sum of no value is NULL.\<close>
  "sql_sum vs =
     (case [v. Some v \<leftarrow> vs] of
        [] \<Rightarrow> None
      | ns \<Rightarrow> Some (sum_list ns))"

definition aggregate :: "joined_row list \<Rightarrow> alert_row list" where
  \<comment> \<open>One row per group: the group's entities and the sum of its sales.\<close>
  "aggregate rows =
     concat (map
       (\<lambda>k. case filter (\<lambda>r. group_key r = k) rows of
               [] \<Rightarrow> []
             | (i, p, w, pt, s, sa) # rest \<Rightarrow>
                 [(i, p, w, pt, s,
                   sql_sum (map (\<lambda>r. sale_quantity_sold (snd (snd (snd (snd (snd r))))))
                              ((i, p, w, pt, s, sa) # rest)))])
       (remdups (map group_key rows)))"

definition low_stock_query :: "int \<Rightarrow> int \<Rightarrow> database \<Rightarrow> alert_row list" where
  "low_stock_query since company_id db = aggregate (joined_rows since company_id db)"

definition days_until_stockout :: "int \<Rightarrow> int option \<Rightarrow> exn + int option" where
  \<comment> \<open>Lines 44 to 48.\<close>
  "days_until_stockout quantity total_sold =
     (case total_sold of
        None \<Rightarrow> Inr None
      | Some t \<Rightarrow>
          if t \<noteq> 0 \<and> 0 < t then
            (case int_truediv t recent_period_days of
               Inl e \<Rightarrow> Inl e
             | Inr avg_daily_sales \<Rightarrow>
                 if float_gt_zero avg_daily_sales then
                   (case int_float_truediv quantity avg_daily_sales of
                      Inl e \<Rightarrow> Inl e
                    | Inr d \<Rightarrow>
                        (case int_of_float d of
                           Inl e \<Rightarrow> Inl e
                         | Inr n \<Rightarrow> Inr (Some n)))
                 else Inr None)
          else Inr None)"

definition spec_days_until_stockout :: "int \<Rightarrow> int option \<Rightarrow> int option" where
  \<comment> \<open>The spec's words, in exact arithmetic: \<open>floor(quantity / (total_sold / 30))\<close> when
      \<open>total_sold > 0\<close>, else null.\<close>
  "spec_days_until_stockout quantity total_sold =
     (case total_sold of
        None \<Rightarrow> None
      | Some t \<Rightarrow>
          if 0 < t then Some \<lfloor>(of_int quantity :: rat) / (of_int t / 30)\<rfloor> else None)"

record supplier_info =
  si_id :: "int option"
  si_name :: "string option"
  si_contact_email :: "string option"

record alert =
  a_product_id :: int
  a_product_name :: string
  a_sku :: string
  a_warehouse_id :: int
  a_warehouse_name :: string
  a_current_stock :: int
  a_threshold :: int
  a_days_until_stockout :: "int option"
  a_supplier :: supplier_info

record alerts_response =
  alerts :: "alert list"
  total_alerts :: nat

definition format_alert :: "alert_row \<Rightarrow> exn + alert" where
  \<comment> \<open>One turn of the loop of lines 43 to 64.\<close>
  "format_alert r =
     (case r of (inventory, product, warehouse, product_type, supplier, total_sold) \<Rightarrow>
        (case days_until_stockout (inv_quantity inventory) total_sold of
           Inl e \<Rightarrow> Inl e
         | Inr days \<Rightarrow>
             Inr \<lparr>a_product_id = prod_id product,
                  a_product_name = prod_name product,
                  a_sku = prod_sku product,
                  a_warehouse_id = wh_id warehouse,
                  a_warehouse_name = wh_name warehouse,
                  a_current_stock = inv_quantity inventory,
                  a_threshold = pt_low_stock_threshold product_type,
                  a_days_until_stockout = days,
                  a_supplier =
                    \<lparr>si_id = map_option sup_id supplier,
                     si_name = map_option sup_name supplier,
                     si_contact_email = map_option sup_contact_email supplier\<rparr>\<rparr>))"

fun format_alerts :: "alert_row list \<Rightarrow> exn + alert list" where
  "format_alerts [] = Inr []"
| "format_alerts (r # rs) =
     (case format_alert r of
        Inl e \<Rightarrow> Inl e
      | Inr a \<Rightarrow>
          (case format_alerts rs of
             Inl e \<Rightarrow> Inl e
           | Inr as \<Rightarrow> Inr (a # as)))"

definition get_low_stock_alerts :: "int \<Rightarrow> int \<Rightarrow> database \<Rightarrow> exn + alerts_response" where
  \<comment> \<open>The handler, with the clock's reading \<open>now\<close> as an input. \<open>Inl\<close> is an exception,
      which this handler does not catch.\<close>
  "get_low_stock_alerts now company_id db =
     (case format_alerts (low_stock_query (activity_since_date now) company_id db) of
        Inl e \<Rightarrow> Inl e
      | Inr as \<Rightarrow> Inr \<lparr>alerts = as, total_alerts = length as\<rparr>)"

subsection \<open>What the spec says of the alert list\<close>

text \<open>
  The spec's words for the alert list, to compare with the query: a product/warehouse
  pair qualifies when the warehouse is the requested company's, the stock is at or below
  the threshold of the product's type, and a sale of the product at the warehouse is
  dated in the trailing 30 days, which the spec's algorithm reads as
  \<open>sale_date \<ge> now - 30 days\<close>.
\<close>

definition recent_sale :: "int \<Rightarrow> database \<Rightarrow> int \<Rightarrow> int \<Rightarrow> bool" where
  "recent_sale now db pid wid =
     (\<exists>sa \<in> set (sales_activity_table db).
        sale_product_id sa = pid \<and> sale_warehouse_id sa = wid
        \<and> now - 30 * 86400000000 \<le> sale_date sa)"

definition spec_low_stock :: "int \<Rightarrow> int \<Rightarrow> database \<Rightarrow> int \<Rightarrow> int \<Rightarrow> bool" where
  "spec_low_stock now company_id db pid wid =
     (\<exists>i \<in> set (inventory_table db). \<exists>p \<in> set (product_table db).
      \<exists>w \<in> set (warehouse_table db). \<exists>pt \<in> set (product_type_table db).
        inv_product_id i = prod_id p \<and> prod_id p = pid
        \<and> inv_warehouse_id i = wh_id w \<and> wh_id w = wid
        \<and> prod_type_id p = Some (pt_id pt)
        \<and> wh_company_id w = company_id
        \<and> inv_quantity i \<le> pt_low_stock_threshold pt
        \<and> recent_sale now db pid wid)"

definition alert_pairs :: "alerts_response \<Rightarrow> (int \<times> int) set" where
  "alert_pairs resp = set (map (\<lambda>a. (a_product_id a, a_warehouse_id a)) (alerts resp))"

subsection \<open>A concrete database\<close>

text \<open>
  \<open>alert_of_row\<close> says that an alert carries the fields of the query row it is made of;
  \<open>example_db\<close> is the spec's example (stock 5, threshold 10, 60 units sold in the
  window) beside a warehouse of another company and an item that was not sold.
\<close>

definition no_supplier :: supplier_info where
  "no_supplier = \<lparr>si_id = None, si_name = None, si_contact_email = None\<rparr>"


definition example_db :: database where
  "example_db =
     \<lparr>inventory_table =
        [\<lparr>inv_id = 1, inv_product_id = 10, inv_warehouse_id = 20, inv_quantity = 5\<rparr>,
         \<lparr>inv_id = 2, inv_product_id = 10, inv_warehouse_id = 21, inv_quantity = 3\<rparr>,
         \<lparr>inv_id = 3, inv_product_id = 11, inv_warehouse_id = 20, inv_quantity = 1\<rparr>],
      product_table =
        [\<lparr>prod_id = 10, prod_name = ''Widget'', prod_sku = ''A-1'', prod_type_id = Some 30,
          prod_supplier_id = None\<rparr>,
         \<lparr>prod_id = 11, prod_name = ''Gadget'', prod_sku = ''B-2'', prod_type_id = Some 30,
          prod_supplier_id = Some 40\<rparr>],
      warehouse_table =
        [\<lparr>wh_id = 20, wh_name = ''Main'', wh_company_id = 1\<rparr>,
         \<lparr>wh_id = 21, wh_name = ''Annex'', wh_company_id = 2\<rparr>],
      product_type_table = [\<lparr>pt_id = 30, pt_low_stock_threshold = 10\<rparr>],
      supplier_table =
        [\<lparr>sup_id = 40, sup_name = ''Acme'', sup_contact_email = ''sales@acme.example''\<rparr>],
      sales_activity_table =
        [\<lparr>sale_product_id = 10, sale_warehouse_id = 20, sale_quantity_sold = Some 25,
          sale_date = 50\<rparr>,
         \<lparr>sale_product_id = 10, sale_warehouse_id = 20, sale_quantity_sold = Some 35,
          sale_date = 60\<rparr>,
         \<lparr>sale_product_id = 10, sale_warehouse_id = 21, sale_quantity_sold = Some 4,
          sale_date = 70\<rparr>]\<rparr>"

definition example_response :: alerts_response where
  "example_response =
     \<lparr>alerts =
        [\<lparr>a_product_id = 10, a_product_name = ''Widget'', a_sku = ''A-1'',
          a_warehouse_id = 20, a_warehouse_name = ''Main'', a_current_stock = 5,
          a_threshold = 10, a_days_until_stockout = Some 2, a_supplier = no_supplier\<rparr>],
      total_alerts = 1\<rparr>"
section \<open>Properties of the rounding\<close>

lemma bitlen_powi_bounds:
  assumes "0 < a"
  shows "(2::rat) powi (bitlen a - 1) \<le> of_int a" "of_int a < (2::rat) powi (bitlen a)"
proof -
  have b: "2 ^ nat (bitlen a - 1) \<le> a" "a < 2 ^ nat (bitlen a)"
    using bitlen_bounds [OF assms] by simp_all
  have p: "1 \<le> bitlen a" using assms bitlen_eq_zero_iff [of a] bitlen_nonneg [of a] by linarith
  have "(2::rat) powi (bitlen a - 1) = of_int (2 ^ nat (bitlen a - 1))"
    using p by (simp add: power_int_def)
  also have "\<dots> \<le> of_int a" using b(1) by (simp only: of_int_le_iff)
  finally show "(2::rat) powi (bitlen a - 1) \<le> of_int a" .
  have "(of_int a :: rat) < of_int (2 ^ nat (bitlen a))" using b(2) by (simp only: of_int_less_iff)
  also have "\<dots> = (2::rat) powi (bitlen a)" using p by (simp add: power_int_def)
  finally show "of_int a < (2::rat) powi (bitlen a)" .
qed

lemma ilog2_bounds:
  assumes "x \<noteq> 0"
  shows "2 powi (ilog2 x) \<le> \<bar>x\<bar>" "\<bar>x\<bar> < 2 powi (ilog2 x + 1)"
proof -
  obtain a b where q: "quotient_of \<bar>x\<bar> = (a, b)" by (cases "quotient_of \<bar>x\<bar>")
  have bpos: "0 < b" using q quotient_of_denom_pos by blast
  have xab: "\<bar>x\<bar> = of_int a / of_int b" using q quotient_of_div by blast
  have apos: "0 < a"
  proof -
    have "0 < \<bar>x\<bar>" using assms by simp
    then have "0 < (of_int a :: rat) / of_int b" using xab by simp
    then show ?thesis using bpos by (simp add: zero_less_divide_iff)
  qed
  let ?k = "bitlen a - bitlen b"
  have lo: "2 powi (?k - 1) \<le> \<bar>x\<bar>"
  proof -
    have "(2::rat) powi (?k - 1) = 2 powi (bitlen a - 1) / 2 powi (bitlen b)"
      by (simp add: power_int_diff)
    also have "\<dots> \<le> of_int a / 2 powi (bitlen b)"
      using bitlen_powi_bounds(1) [OF apos] by (simp add: divide_right_mono)
    also have "\<dots> \<le> of_int a / of_int b"
      using bitlen_powi_bounds(2) [OF bpos] apos bpos by (simp add: frac_le)
    finally show ?thesis using xab by simp
  qed
  have hi: "\<bar>x\<bar> < 2 powi (?k + 1)"
  proof -
    have "of_int a / (of_int b :: rat) < 2 powi (bitlen a) / of_int b"
      using bitlen_powi_bounds(2) [OF apos] bpos by (simp add: divide_strict_right_mono)
    also have "\<dots> \<le> 2 powi (bitlen a) / 2 powi (bitlen b - 1)"
      using bitlen_powi_bounds(1) [OF bpos] by (simp add: frac_le)
    also have "\<dots> = 2 powi (?k + 1)"
      by (simp add: power_int_diff power_int_add)
    finally show ?thesis using xab by simp
  qed
  have il: "ilog2 x = (if 2 powi ?k \<le> \<bar>x\<bar> then ?k else ?k - 1)"
    by (simp add: ilog2_def q Let_def)
  show "2 powi (ilog2 x) \<le> \<bar>x\<bar>" using lo by (simp add: il)
  show "\<bar>x\<bar> < 2 powi (ilog2 x + 1)" using hi by (simp add: il not_le)
qed

lemma powi2_mono: "k \<le> l \<Longrightarrow> (2::rat) powi k \<le> 2 powi l"
  by (simp add: power_int_increasing)

lemma powi2_pos [simp]: "0 < (2::rat) powi k"
  by (simp add: zero_less_power_int)

lemma ilog2_unique:
  assumes "2 powi k \<le> \<bar>x\<bar>" "\<bar>x\<bar> < 2 powi (k + 1)"
  shows "ilog2 x = k"
proof -
  have "0 < \<bar>x\<bar>" using assms(1) powi2_pos [of k] by linarith
  then have x0: "x \<noteq> 0" by simp
  note b = ilog2_bounds [OF x0]
  have "\<not> ilog2 x + 1 \<le> k"
  proof
    assume "ilog2 x + 1 \<le> k"
    then have "(2::rat) powi (ilog2 x + 1) \<le> 2 powi k" by (rule powi2_mono)
    then show False using b(2) assms(1) by linarith
  qed
  moreover have "\<not> k + 1 \<le> ilog2 x"
  proof
    assume "k + 1 \<le> ilog2 x"
    then have "(2::rat) powi (k + 1) \<le> 2 powi ilog2 x" by (rule powi2_mono)
    then show False using b(1) assms(2) by linarith
  qed
  ultimately show ?thesis by linarith
qed

lemma round_half_even_error: "\<bar>of_int (round_half_even r) - r\<bar> \<le> 1 / 2"
proof -
  have "of_int \<lfloor>r\<rfloor> \<le> r" "r < of_int \<lfloor>r\<rfloor> + 1" by linarith+
  then show ?thesis by (auto simp: round_half_even_def Let_def abs_le_iff)
qed

lemma round_half_even_ge: "of_int n \<le> r \<Longrightarrow> n \<le> round_half_even r"
proof -
  assume "of_int n \<le> r"
  then have "n \<le> \<lfloor>r\<rfloor>" by (simp add: le_floor_iff)
  then show ?thesis by (auto simp: round_half_even_def Let_def)
qed

lemma round_half_even_of_int [simp]: "round_half_even (of_int n) = n"
  by (simp add: round_half_even_def)

lemma round_double_eval:
  assumes "2 powi k \<le> \<bar>x\<bar>" "\<bar>x\<bar> < 2 powi (k + 1)" "- 1022 \<le> k"
    and "round_half_even (x / 2 powi (k - 52)) = m" "\<bar>m\<bar> < 2 ^ 53" "k < 1023"
  shows "round_double x = Finite (of_int m * 2 powi (k - 52))"
proof -
  have "0 < \<bar>x\<bar>" using assms(1) powi2_pos [of k] by linarith
  then have x0: "x \<noteq> 0" by simp
  have il: "ilog2 x = k" using assms(1,2) by (rule ilog2_unique)
  have e: "max (ilog2 x - 52) (- 1074) = k - 52" using il assms(3) by simp
  have "\<bar>of_int m * (2::rat) powi (k - 52)\<bar> = of_int \<bar>m\<bar> * 2 powi (k - 52)"
    by (simp add: abs_mult)
  also have "\<dots> < 2 ^ 53 * 2 powi (k - 52)"
  proof -
    have "(of_int \<bar>m\<bar> :: rat) < of_int (2 ^ 53)" using assms(5) by (simp only: of_int_less_iff)
    then show ?thesis by (simp add: mult_strict_right_mono)
  qed
  also have "\<dots> = 2 powi (k + 1)"
    by (simp add: power_int_add power_int_diff)
  also have "\<dots> \<le> 2 powi 1023" using assms(6) by (intro powi2_mono) simp
  finally have b: "\<bar>of_int m * (2::rat) powi (k - 52)\<bar> < 2 ^ 1023 " by simp
  then have "\<not> 2 ^ 1024 \<le> of_int m * (2::rat) powi (k - 52)"
    "\<not> of_int m * (2::rat) powi (k - 52) \<le> - (2 ^ 1024)"
    by (simp_all add: abs_less_iff)
  then show ?thesis
    using x0 e assms(4) by (simp add: round_double_def Let_def)
qed

lemma round_half_even_eqI:
  assumes "\<bar>r - of_int m\<bar> < 1 / 2"
  shows "round_half_even r = m"
proof -
  have f: "of_int \<lfloor>r\<rfloor> \<le> r" "r < of_int \<lfloor>r\<rfloor> + 1" by linarith+
  have m: "of_int m - 1 / 2 < r" "r < of_int m + 1 / 2" using assms by linarith+
  have "of_int \<lfloor>r\<rfloor> < (of_int m :: rat) + 1" using f(1) m(2) by linarith
  then have "of_int \<lfloor>r\<rfloor> < (of_int (m + 1) :: rat)" by simp
  then have u: "\<lfloor>r\<rfloor> < m + 1" by (simp only: of_int_less_iff)
  have "(of_int m :: rat) - 1 < of_int \<lfloor>r\<rfloor> + 1" using f(2) m(1) by linarith
  then have "(of_int (m - 1) :: rat) < of_int (\<lfloor>r\<rfloor> + 1)" by simp
  then have l: "m - 1 < \<lfloor>r\<rfloor> + 1" by (simp only: of_int_less_iff)
  from u l have "\<lfloor>r\<rfloor> = m \<or> \<lfloor>r\<rfloor> = m - 1" by linarith
  then show ?thesis
  proof
    assume e: "\<lfloor>r\<rfloor> = m"
    then have "r - of_int \<lfloor>r\<rfloor> < 1 / 2" using m(2) by simp
    then show ?thesis using e by (simp add: round_half_even_def Let_def)
  next
    assume e: "\<lfloor>r\<rfloor> = m - 1"
    then have "1 / 2 < r - of_int \<lfloor>r\<rfloor>" using m(1) by simp
    then show ?thesis using e by (simp add: round_half_even_def Let_def)
  qed
qed

lemma round_double_small:
  assumes "2 powi k \<le> \<bar>x\<bar>" "\<bar>x\<bar> < 2 powi (k + 1)" "- 1022 \<le> k" "k \<le> 52"
    and "\<bar>x * 2 ^ nat (52 - k) - of_int m\<bar> < 1 / 2" "\<bar>m\<bar> < 2 ^ 53"
  shows "round_double x = Finite (of_int m / 2 ^ nat (52 - k))"
proof -
  have p: "(2::rat) powi (k - 52) = 1 / 2 ^ nat (52 - k)"
    using assms(4) by (simp add: power_int_def field_simps)
  have "round_half_even (x / 2 powi (k - 52)) = m"
    using assms(5) by (intro round_half_even_eqI) (simp add: p)
  moreover have "k < 1023" using assms(4) by simp
  ultimately have "round_double x = Finite (of_int m * 2 powi (k - 52))"
    using assms(1,2,3,6) by (intro round_double_eval) simp_all
  then show ?thesis by (simp add: p)
qed

lemma avg_23: "int_truediv 23 30 = Inr (Finite (6905519428634761 / 9007199254740992))"
proof -
  have "round_double (23 / 30) = Finite (of_int 6905519428634761 / 2 ^ nat (52 - (- 1)))"
    by (rule round_double_small) (simp_all add: power_int_def)
  then show ?thesis by (simp add: int_truediv_def)
qed

lemma float_23: "float_of_int 23 = Inr (Finite 23)"
proof -
  have "round_double 23 = Finite (of_int (23 * 2 ^ 48) / 2 ^ nat (52 - 4))"
    by (rule round_double_small) (simp_all add: power_int_def)
  then show ?thesis by (simp add: float_of_int_def)
qed

lemma quot_23:
  "float_truediv (Finite 23) (Finite (6905519428634761 / 9007199254740992))
     = Inr (Finite (8444249301319679 / 281474976710656))"
proof -
  have "round_double (23 / (6905519428634761 / 9007199254740992))
      = Finite (of_int 8444249301319679 / 2 ^ nat (52 - 4))"
    by (rule round_double_small) (simp_all add: power_int_def)
  then show ?thesis by simp
qed

lemma int_float_23:
  "int_float_truediv 23 (Finite (6905519428634761 / 9007199254740992))
     = Inr (Finite (8444249301319679 / 281474976710656))"
  by (simp only: int_float_truediv_def float_23 sum.case quot_23)

lemma int_of_float_floor:
  assumes "0 \<le> r" "of_int n \<le> r" "r < of_int n + 1"
  shows "int_of_float (Finite r) = Inr n"
proof -
  have "\<lfloor>r\<rfloor> = n" using assms(2,3) by (intro floor_unique)
  then show ?thesis using assms(1) by (simp add: int_of_float_def)
qed

lemma int_29: "int_of_float (Finite (8444249301319679 / 281474976710656)) = Inr 29"
  by (rule int_of_float_floor) simp_all

lemma days_23: "days_until_stockout 23 (Some 23) = Inr (Some 29)"
  by (simp add: days_until_stockout_def recent_period_days_def avg_23 float_gt_zero_def
        int_float_23 int_29)

lemma round_double_2: "round_double 2 = Finite 2"
proof -
  have "round_double 2 = Finite (of_int (2 ^ 52) / 2 ^ nat (52 - 1))"
    by (rule round_double_small) (simp_all add: power_int_def)
  then show ?thesis by simp
qed

lemma float_5: "float_of_int 5 = Inr (Finite 5)"
proof -
  have "round_double 5 = Finite (of_int (5 * 2 ^ 50) / 2 ^ nat (52 - 2))"
    by (rule round_double_small) (simp_all add: power_int_def)
  then show ?thesis by (simp add: float_of_int_def)
qed

lemma round_double_5_2: "round_double (5 / 2) = Finite (5 / 2)"
proof -
  have "round_double (5 / 2) = Finite (of_int (5 * 2 ^ 50) / 2 ^ nat (52 - 1))"
    by (rule round_double_small) (simp_all add: power_int_def)
  then show ?thesis by simp
qed

lemma days_5_60: "days_until_stockout 5 (Some 60) = Inr (Some 2)"
proof -
  have a: "int_truediv 60 30 = Inr (Finite 2)"
    by (simp add: int_truediv_def round_double_2)
  have b: "int_float_truediv 5 (Finite 2) = Inr (Finite (5 / 2))"
    by (simp add: int_float_truediv_def float_5 round_double_5_2)
  have c: "int_of_float (Finite (5 / 2)) = Inr 2"
    by (rule int_of_float_floor) simp_all
  show ?thesis
    by (simp add: days_until_stockout_def recent_period_days_def a float_gt_zero_def b c)
qed

lemma float_of_int_overflow:
  assumes "2 ^ 1024 \<le> n"
  shows "float_of_int n = Inl OverflowError"
proof -
  let ?x = "of_int n :: rat"
  have x: "(2::rat) ^ 1024 \<le> ?x"
  proof -
    have "(of_int (2 ^ 1024) :: rat) \<le> of_int n" using assms by (simp only: of_int_le_iff)
    then show ?thesis by simp
  qed
  moreover have "(0::rat) < 2 ^ 1024" by simp
  ultimately have xpos: "0 < ?x" by linarith
  then have x0: "?x \<noteq> 0" by simp
  let ?k = "ilog2 ?x"
  note b = ilog2_bounds [OF x0]
  have k: "1024 \<le> ?k"
  proof (rule ccontr)
    assume "\<not> 1024 \<le> ?k"
    then have "?k + 1 \<le> 1024" by simp
    then have "(2::rat) powi (?k + 1) \<le> 2 powi 1024" by (rule powi2_mono)
    also have "\<dots> = 2 ^ 1024" by (simp add: power_int_def)
    finally show False using b(2) x xpos by simp
  qed
  then have e: "max (?k - 52) (- 1074) = ?k - 52" by simp
  let ?r = "?x / 2 powi (?k - 52)"
  have "(2::rat) powi ?k / 2 powi (?k - 52) \<le> ?r"
    using b(1) xpos by (simp add: divide_right_mono)
  moreover have "(2::rat) powi ?k / 2 powi (?k - 52) = of_int (2 ^ 52)"
    by (simp add: power_int_diff)
  ultimately have "of_int (2 ^ 52) \<le> ?r" by simp
  then have m: "2 ^ 52 \<le> round_half_even ?r" by (rule round_half_even_ge)
  have "(2::rat) ^ 1024 = 2 powi 1024" by (simp add: power_int_def)
  also have "\<dots> \<le> 2 powi ?k" using k by (rule powi2_mono)
  also have "\<dots> = of_int (2 ^ 52) * 2 powi (?k - 52)"
    by (simp add: power_int_diff)
  also have "\<dots> \<le> of_int (round_half_even ?r) * 2 powi (?k - 52)"
  proof -
    have "(of_int (2 ^ 52) :: rat) \<le> of_int (round_half_even ?r)"
      using m by (simp only: of_int_le_iff)
    then show ?thesis by (intro mult_right_mono) simp_all
  qed
  finally have "round_double ?x = PosInf"
    using x0 e by (simp add: round_double_def Let_def)
  then show ?thesis by (simp add: float_of_int_def)
qed

subsection \<open>Values in range give a result\<close>

text \<open>
  In the normal range a rounding is finite and within a relative error of \<open>2\<^sup>-\<^sup>5\<^sup>3\<close>; so
  for a quantity of 64 bits and a total below \<open>2\<^sup>1\<^sup>0\<^sup>0\<^sup>0\<close> the estimate raises nothing.
\<close>

lemma round_double_normal:
  assumes "2 powi (- 1022) \<le> \<bar>x\<bar>" "\<bar>x\<bar> < 2 ^ 1023"
  shows "\<exists>y. round_double x = Finite y \<and> \<bar>y - x\<bar> \<le> \<bar>x\<bar> / 2 ^ 53"
proof -
  have "0 < \<bar>x\<bar>" using assms(1) powi2_pos [of "- 1022"] by linarith
  then have x0: "x \<noteq> 0" by simp
  let ?k = "ilog2 x"
  note b = ilog2_bounds [OF x0]
  have k: "- 1022 \<le> ?k"
  proof (rule ccontr)
    assume "\<not> - 1022 \<le> ?k"
    then have "?k + 1 \<le> - 1022" by simp
    then have "(2::rat) powi (?k + 1) \<le> 2 powi (- 1022)" by (rule powi2_mono)
    then show False using b(2) assms(1) by linarith
  qed
  then have e: "max (?k - 52) (- 1074) = ?k - 52" by simp
  let ?P = "(2::rat) powi (?k - 52)"
  let ?m = "round_half_even (x / ?P)"
  let ?y = "of_int ?m * ?P"
  have Ppos: "0 < ?P" by simp
  have "\<bar>?y - x\<bar> = \<bar>of_int ?m - x / ?P\<bar> * ?P"
  proof -
    have "?y - x = (of_int ?m - x / ?P) * ?P" using Ppos by (simp add: field_simps)
    then show ?thesis using Ppos by (simp add: abs_mult)
  qed
  also have "\<dots> \<le> (1 / 2) * ?P"
    using round_half_even_error [of "x / ?P"] Ppos by (intro mult_right_mono) simp_all
  also have "\<dots> = 2 powi ?k / 2 ^ 53"
    by (simp add: power_int_diff)
  also have "\<dots> \<le> \<bar>x\<bar> / 2 ^ 53" using b(1) by (simp add: divide_right_mono)
  finally have err: "\<bar>?y - x\<bar> \<le> \<bar>x\<bar> / 2 ^ 53" .
  have "\<bar>x\<bar> / 2 ^ 53 \<le> \<bar>x\<bar>" by (simp add: field_simps)
  then have "\<bar>?y\<bar> \<le> 2 * \<bar>x\<bar>" using err by linarith
  then have "\<bar>?y\<bar> < 2 ^ 1024" using assms(2) by simp
  then have "\<not> 2 ^ 1024 \<le> ?y" "\<not> ?y \<le> - (2 ^ 1024)" by linarith+
  then have "round_double x = Finite ?y"
    using x0 e by (simp add: round_double_def Let_def)
  then show ?thesis using err by blast
qed

lemma round_double_bounds:
  assumes "2 powi (- 1022) \<le> \<bar>x\<bar>" "\<bar>x\<bar> < 2 ^ 1023"
  obtains y where "round_double x = Finite y" "\<bar>x\<bar> / 2 \<le> \<bar>y\<bar>" "\<bar>y\<bar> \<le> 2 * \<bar>x\<bar>"
    "0 < x \<Longrightarrow> 0 < y"
proof -
  from round_double_normal [OF assms] obtain y where
    y: "round_double x = Finite y" "\<bar>y - x\<bar> \<le> \<bar>x\<bar> / 2 ^ 53" by blast
  have "0 < \<bar>x\<bar>" using assms(1) powi2_pos [of "- 1022"] by linarith
  have h: "\<bar>x\<bar> / 2 ^ 53 \<le> \<bar>x\<bar> / 2" by (simp add: field_simps)
  have "\<bar>x\<bar> / 2 \<le> \<bar>y\<bar>" "\<bar>y\<bar> \<le> 2 * \<bar>x\<bar>" using y(2) h by linarith+
  moreover have "0 < x \<Longrightarrow> 0 < y" using y(2) h by linarith
  ultimately show thesis using y(1) that by blast
qed

lemma small_powi: "(2::rat) powi (- 1022) \<le> 1 / 2 ^ 1010"
proof -
  have "(2::rat) powi (- 1022) \<le> 2 powi (- 1010)" by (rule powi2_mono) simp
  also have "\<dots> = 1 / 2 ^ 1010" by (simp add: power_int_def field_simps)
  finally show ?thesis .
qed

lemma days_until_stockout_returns:
  assumes "\<bar>q\<bar> < 2 ^ 63" "t < 2 ^ 1000"
  shows "\<exists>d. days_until_stockout q (Some t) = Inr d"
proof (cases "0 < t")
  case False
  then show ?thesis by (simp add: days_until_stockout_def)
next
  case True
  let ?x = "of_int t / 30 :: rat"
  have t1: "(1::rat) \<le> of_int t" using True by simp
  have t2: "(of_int t :: rat) < 2 ^ 1000"
  proof -
    have "(of_int t :: rat) < of_int (2 ^ 1000)" using assms(2) by (simp only: of_int_less_iff)
    then show ?thesis by simp
  qed
  have xpos: "0 < ?x" using t1 by simp
  have xlo: "1 / 30 \<le> ?x" using t1 by simp
  have xhi: "?x < 2 ^ 1000" using t2 by simp
  have "(1::rat) / 2 ^ 1010 \<le> 1 / 30" by (simp add: field_simps)
  then have "2 powi (- 1022) \<le> \<bar>?x\<bar>" using small_powi xlo xpos by linarith
  moreover have "\<bar>?x\<bar> < 2 ^ 1023"
  proof -
    have "(2::rat) ^ 1000 \<le> 2 ^ 1023" by (rule power_increasing) simp_all
    then show ?thesis using xhi xpos by linarith
  qed
  ultimately obtain a where a: "round_double ?x = Finite a" "\<bar>?x\<bar> / 2 \<le> \<bar>a\<bar>"
    "\<bar>a\<bar> \<le> 2 * \<bar>?x\<bar>" "0 < a"
    using round_double_bounds [of ?x] xpos by blast
  have alo: "1 / 60 \<le> a" using a(2,4) xlo xpos by simp
  have ahi: "a < 2 ^ 1001" using a(3,4) xhi xpos by simp
  have avg: "int_truediv t recent_period_days = Inr (Finite a)"
    using True a(1) by (simp add: int_truediv_def recent_period_days_def)
  have gt: "float_gt_zero (Finite a)" using a(4) by (simp add: float_gt_zero_def)
  have "\<exists>z. int_float_truediv q (Finite a) = Inr (Finite z)"
  proof (cases "q = 0")
    case True
    then show ?thesis using a(4)
      by (simp add: int_float_truediv_def float_of_int_def round_double_def)
  next
    case False
    have q1: "(1::rat) \<le> \<bar>of_int q\<bar>"
    proof -
      have "1 \<le> \<bar>q\<bar>" using False by simp
      then have "(of_int 1 :: rat) \<le> of_int \<bar>q\<bar>" by (simp only: of_int_le_iff)
      then show ?thesis by simp
    qed
    have q2: "\<bar>of_int q :: rat\<bar> < 2 ^ 63"
    proof -
      have "(of_int \<bar>q\<bar> :: rat) < of_int (2 ^ 63)" using assms(1) by (simp only: of_int_less_iff)
      then show ?thesis by simp
    qed
    have "2 powi (- 1022) \<le> \<bar>of_int q :: rat\<bar>"
    proof -
      have "(1::rat) / 2 ^ 1010 \<le> 1" by simp
      then show ?thesis using small_powi q1 by linarith
    qed
    moreover have "\<bar>of_int q :: rat\<bar> < 2 ^ 1023"
    proof -
      have "(2::rat) ^ 63 \<le> 2 ^ 1023" by (rule power_increasing) simp_all
      then show ?thesis using q2 by linarith
    qed
    ultimately obtain f where f: "round_double (of_int q) = Finite f"
      "\<bar>of_int q :: rat\<bar> / 2 \<le> \<bar>f\<bar>" "\<bar>f\<bar> \<le> 2 * \<bar>of_int q\<bar>"
      using round_double_bounds [of "of_int q"] by blast
    have flo: "1 / 2 \<le> \<bar>f\<bar>" using f(2) q1 by linarith
    have fhi: "\<bar>f\<bar> < 2 ^ 64" using f(3) q2 by simp
    have fq: "float_of_int q = Inr (Finite f)" using f(1) by (simp add: float_of_int_def)
    let ?z = "f / a"
    have zabs: "\<bar>?z\<bar> = \<bar>f\<bar> / a" using a(4) by (simp add: abs_divide)
    have zlo: "1 / 2 ^ 1002 \<le> \<bar>?z\<bar>"
    proof -
      have "1 / 2 ^ 1002 = (1 / 2) / (2 ^ 1001 :: rat)" by simp
      also have "\<dots> \<le> \<bar>f\<bar> / a"
        using flo ahi a(4) by (intro frac_le) simp_all
      finally show ?thesis unfolding zabs .
    qed
    have zhi: "\<bar>?z\<bar> \<le> 2 ^ 64 * 60"
    proof -
      have "\<bar>f\<bar> / a \<le> 2 ^ 64 / (1 / 60)"
        using fhi alo a(4) by (intro frac_le) simp_all
      also have "\<dots> = 2 ^ 64 * 60" by simp
      finally show ?thesis unfolding zabs .
    qed
    have "2 powi (- 1022) \<le> \<bar>?z\<bar>"
    proof -
      have "(1::rat) / 2 ^ 1010 \<le> 1 / 2 ^ 1002" by (simp add: field_simps)
      then show ?thesis using small_powi zlo by linarith
    qed
    moreover have "\<bar>?z\<bar> < 2 ^ 1023"
    proof -
      have "(2::rat) ^ 64 * 60 < 2 ^ 64 * 2 ^ 6" by simp
      also have "\<dots> = 2 ^ 70" by simp
      also have "\<dots> \<le> 2 ^ 1023" by (rule power_increasing) simp_all
      finally show ?thesis using zhi by linarith
    qed
    ultimately obtain z where "round_double ?z = Finite z"
      using round_double_bounds [of ?z] by blast
    then show ?thesis using fq a(4) by (simp add: int_float_truediv_def)
  qed
  then obtain z where z: "int_float_truediv q (Finite a) = Inr (Finite z)" by blast
  have "\<exists>n. int_of_float (Finite z) = Inr n" by (simp add: int_of_float_def)
  then show ?thesis
    using True avg gt z by (auto simp: days_until_stockout_def)
qed
section \<open>The runs of \<open>create_product\<close>\<close>

lemma record_event_simps [simp]:
  "committed (record_event ev s) = committed s"
  "in_tx (record_event ev s) = in_tx s"
  "pending (record_event ev s) = pending s"
  "log (record_event ev s) = log s @ [ev]"
  by (simp_all add: record_event_def)

lemma session_add_simps [simp]:
  "committed (session_add obj s) = committed s"
  "in_tx (session_add obj s) = in_tx s"
  "pending (session_add obj s) = pending s @ [obj]"
  "log (session_add obj s) = log s @ [Add obj]"
  by (simp_all add: session_add_def)

lemma session_rollback_simps [simp]:
  "committed (session_rollback s) = committed s"
  "products (in_tx (session_rollback s)) = []"
  "inventories (in_tx (session_rollback s)) = []"
  "pending (session_rollback s) = []"
  "log (session_rollback s) = log s @ [Rollback]"
  by (simp_all add: session_rollback_def)

lemma py_getitem_object:
  "k \<in> fst ` set kvs \<Longrightarrow> \<exists>v. py_getitem (JObj kvs) k = Inr v"
  by (cases "map_of kvs k") (auto simp: map_of_eq_None_iff)

lemma all_in_object:
  "all_in (JObj kvs) fs = Inr True \<Longrightarrow> f \<in> set fs \<Longrightarrow> f \<in> fst ` set kvs"
  by (induction fs) (auto split: if_splits bool.splits)

lemma body_shape:
  assumes "missing_fields data = Inr False"
  shows "(\<forall>f \<in> set required_fields. \<exists>v. py_getitem data f = Inr v)
       \<or> (\<forall>k. py_getitem data k = Inl TypeError)"
proof (cases data)
  case (JObj kvs)
  have "all_in (JObj kvs) required_fields = Inr True"
    using assms JObj by (auto simp: missing_fields_def split: if_splits sum.splits)
  then have "\<forall>f \<in> set required_fields. f \<in> fst ` set kvs"
    using all_in_object by blast
  then show ?thesis using JObj py_getitem_object by blast
qed (use assms in \<open>auto simp: missing_fields_def required_fields_def split: if_splits\<close>)

lemma create_inventory_cases:
  assumes "create_inventory bi en data s = (r, s')"
    and "py_getitem data ''warehouse_id'' = Inr wid"
    and "py_getitem data ''initial_quantity'' = Inr qv"
  obtains
    (quantity_error) e where
      "py_int bi qv = Inl e" "r = Inl e"
      "committed s' = committed s" "in_tx s' = in_tx s" "pending s' = pending s"
      "log s' = log s @ [Coerce ''initial_quantity'' qv False]"
  | (commit_failed) qty f where
      "py_int bi qv = Inr qty" "commit_fails en = Some f" "r = Inl (raised f)"
      "committed s' = committed s" "in_tx s' = in_tx s"
      "pending s' = pending s @ [NewInventory (flushed_product_id s) wid qty]"
      "log s' = log s @ [Coerce ''initial_quantity'' qv True,
                         Add (NewInventory (flushed_product_id s) wid qty), Commit]"
  | (refresh_failed) qty detail where
      "py_int bi qv = Inr qty" "commit_fails en = None" "refresh_fails en = Some detail"
      "r = Inl (DatabaseError detail)"
      "products (committed s') = products (committed s) @
         products (insert_all (next_id en)
           (pending s @ [NewInventory (flushed_product_id s) wid qty]) (in_tx s))"
      "inventories (committed s') = inventories (committed s) @
         inventories (insert_all (next_id en)
           (pending s @ [NewInventory (flushed_product_id s) wid qty]) (in_tx s))"
      "products (in_tx s') = []" "inventories (in_tx s') = []" "pending s' = []"
      "log s' = log s @ [Coerce ''initial_quantity'' qv True,
                         Add (NewInventory (flushed_product_id s) wid qty), Commit, Refresh]"
  | (created) qty where
      "py_int bi qv = Inr qty" "commit_fails en = None" "refresh_fails en = None"
      "r = Inr (CreatedBody ''Product created successfully'' (flushed_product_id s), 201)"
      "products (committed s') = products (committed s) @
         products (insert_all (next_id en)
           (pending s @ [NewInventory (flushed_product_id s) wid qty]) (in_tx s))"
      "inventories (committed s') = inventories (committed s) @
         inventories (insert_all (next_id en)
           (pending s @ [NewInventory (flushed_product_id s) wid qty]) (in_tx s))"
      "products (in_tx s') = []" "inventories (in_tx s') = []" "pending s' = []"
      "log s' = log s @ [Coerce ''initial_quantity'' qv True,
                         Add (NewInventory (flushed_product_id s) wid qty), Commit, Refresh]"
  using assms
  by (auto simp: create_inventory_def coerce_quantity_def session_commit_def
           session_refresh_def Let_def
           split: sum.splits option.splits)

lemma create_new_product_cases:
  assumes "create_new_product bi en data s = (r, s')"
    and "py_getitem data ''name'' = Inr name"
    and "py_getitem data ''sku'' = Inr sku"
    and "py_getitem data ''price'' = Inr pv"
    and "py_getitem data ''warehouse_id'' = Inr wid"
  obtains
    (price_error) e where
      "py_float bi pv = Inl e" "r = Inl e"
      "committed s' = committed s" "in_tx s' = in_tx s" "pending s' = pending s"
      "log s' = log s @ [Coerce ''price'' pv False]"
  | (flush_failed) price f where
      "py_float bi pv = Inr price" "flush_fails en = Some f" "r = Inl (raised f)"
      "committed s' = committed s" "in_tx s' = in_tx s"
      "pending s' = pending s @ [NewProduct name sku price wid]"
      "log s' = log s @ [Coerce ''price'' pv True, Add (NewProduct name sku price wid), Flush]"
  | (flushed) price s2 where
      "py_float bi pv = Inr price" "flush_fails en = None"
      "create_inventory bi en data s2 = (r, s')"
      "committed s2 = committed s"
      "in_tx s2 = insert_all (next_id en) (pending s @ [NewProduct name sku price wid]) (in_tx s)"
      "pending s2 = []"
      "log s2 = log s @ [Coerce ''price'' pv True, Add (NewProduct name sku price wid), Flush]"
  using assms
  by (auto simp: create_new_product_def coerce_price_def session_flush_def Let_def
           split: sum.splits option.splits)

lemma create_product_try_cases:
  assumes "create_product_try bi en data s = (r, s')"
    and "py_getitem data ''sku'' = Inr sku"
  obtains
    (lookup_failed) f where
      "lookup_fails en = Some f" "r = Inl (raised f)"
      "committed s' = committed s" "in_tx s' = in_tx s" "pending s' = pending s"
      "log s' = log s @ [SkuLookup sku]"
  | (sku_exists) p where
      "lookup_fails en = None"
      "find (\<lambda>p. p_sku p = sku) (products (committed s) @ products (in_tx s)) = Some p"
      "r = Inr (SkuExistsBody sku, 409)"
      "committed s' = committed s" "in_tx s' = in_tx s" "pending s' = pending s"
      "log s' = log s @ [SkuLookup sku]"
  | (not_found) s1 where
      "lookup_fails en = None"
      "find (\<lambda>p. p_sku p = sku) (products (committed s) @ products (in_tx s)) = None"
      "create_new_product bi en data s1 = (r, s')"
      "committed s1 = committed s" "in_tx s1 = in_tx s" "pending s1 = pending s"
      "log s1 = log s @ [SkuLookup sku]"
  using assms
  by (auto simp: create_product_try_def first_by_sku_def Let_def
           split: sum.splits option.splits)


lemma trace_append: "log s' = log s @ evs \<Longrightarrow> trace s s' = evs"
  by (simp add: trace_def)

lemma create_product_cases:
  assumes run: "create_product bi en data s = (r, s')" and fr: "fresh s"
  obtains
    (uncaught) e where
      "missing_fields data = Inl e" "r = Inl e" "s' = s"
  | (missing)
      "missing_fields data = Inr True"
      "r = Inr (ErrorBody ''Missing required fields'', 400)" "s' = s"
  | (not_an_object)
      "missing_fields data = Inr False" "\<forall>k. py_getitem data k = Inl TypeError"
      "r = Inr (error_response TypeError)"
      "committed s' = committed s" "fresh s'" "trace s s' = [Rollback]"
  | (lookup_failed) name sku pv wid qv f where
      "body_fields data name sku pv wid qv"
      "lookup_fails en = Some f"
      "r = Inr (error_response (raised f))"
      "committed s' = committed s" "fresh s'" "trace s s' = [SkuLookup sku, Rollback]"
  | (sku_exists) name sku pv wid qv p where
      "body_fields data name sku pv wid qv"
      "lookup_fails en = None"
      "find (\<lambda>p. p_sku p = sku) (products (committed s) @ products (in_tx s)) = Some p"
      "r = Inr (SkuExistsBody sku, 409)"
      "committed s' = committed s" "fresh s'" "trace s s' = [SkuLookup sku]"
  | (price_error) name sku pv wid qv e where
      "body_fields data name sku pv wid qv"
      "lookup_fails en = None"
      "find (\<lambda>p. p_sku p = sku) (products (committed s) @ products (in_tx s)) = None"
      "py_float bi pv = Inl e"
      "r = Inr (error_response e)"
      "committed s' = committed s" "fresh s'"
      "trace s s' = [SkuLookup sku, Coerce ''price'' pv False, Rollback]"
  | (flush_failed) name sku pv wid qv price f where
      "body_fields data name sku pv wid qv"
      "lookup_fails en = None"
      "find (\<lambda>p. p_sku p = sku) (products (committed s) @ products (in_tx s)) = None"
      "py_float bi pv = Inr price"
      "flush_fails en = Some f"
      "r = Inr (error_response (raised f))"
      "committed s' = committed s" "fresh s'"
      "trace s s' = [SkuLookup sku, Coerce ''price'' pv True,
                     Add (NewProduct name sku price wid), Flush, Rollback]"
  | (quantity_error) name sku pv wid qv price e where
      "body_fields data name sku pv wid qv"
      "lookup_fails en = None"
      "find (\<lambda>p. p_sku p = sku) (products (committed s) @ products (in_tx s)) = None"
      "py_float bi pv = Inr price"
      "flush_fails en = None"
      "py_int bi qv = Inl e"
      "r = Inr (error_response e)"
      "committed s' = committed s" "fresh s'"
      "trace s s' = [SkuLookup sku, Coerce ''price'' pv True,
                     Add (NewProduct name sku price wid), Flush,
                     Coerce ''initial_quantity'' qv False, Rollback]"
  | (commit_failed) name sku pv wid qv price qty f where
      "body_fields data name sku pv wid qv"
      "lookup_fails en = None"
      "find (\<lambda>p. p_sku p = sku) (products (committed s) @ products (in_tx s)) = None"
      "py_float bi pv = Inr price"
      "flush_fails en = None"
      "py_int bi qv = Inr qty"
      "commit_fails en = Some f"
      "r = Inr (error_response (raised f))"
      "committed s' = committed s" "fresh s'"
      "trace s s' = [SkuLookup sku, Coerce ''price'' pv True,
                     Add (NewProduct name sku price wid), Flush,
                     Coerce ''initial_quantity'' qv True,
                     Add (NewInventory (next_id en) wid qty), Commit, Rollback]"
  | (refresh_failed) name sku pv wid qv price qty detail where
      "body_fields data name sku pv wid qv"
      "lookup_fails en = None"
      "find (\<lambda>p. p_sku p = sku) (products (committed s) @ products (in_tx s)) = None"
      "py_float bi pv = Inr price"
      "flush_fails en = None"
      "py_int bi qv = Inr qty"
      "commit_fails en = None"
      "refresh_fails en = Some detail"
      "r = Inr (error_response (DatabaseError detail))"
      "products (committed s') = products (committed s) @
         [\<lparr>p_id = next_id en, p_name = name, p_sku = sku, p_price = price,
           p_warehouse_id = wid\<rparr>]"
      "inventories (committed s') = inventories (committed s) @
         [\<lparr>i_product_id = next_id en, i_warehouse_id = wid, i_quantity = qty\<rparr>]"
      "fresh s'"
      "trace s s' = [SkuLookup sku, Coerce ''price'' pv True,
                     Add (NewProduct name sku price wid), Flush,
                     Coerce ''initial_quantity'' qv True,
                     Add (NewInventory (next_id en) wid qty), Commit, Refresh, Rollback]"
  | (created) name sku pv wid qv price qty where
      "body_fields data name sku pv wid qv"
      "lookup_fails en = None"
      "find (\<lambda>p. p_sku p = sku) (products (committed s) @ products (in_tx s)) = None"
      "py_float bi pv = Inr price"
      "flush_fails en = None"
      "py_int bi qv = Inr qty"
      "commit_fails en = None"
      "refresh_fails en = None"
      "r = Inr (CreatedBody ''Product created successfully'' (next_id en), 201)"
      "products (committed s') = products (committed s) @
         [\<lparr>p_id = next_id en, p_name = name, p_sku = sku, p_price = price,
           p_warehouse_id = wid\<rparr>]"
      "inventories (committed s') = inventories (committed s) @
         [\<lparr>i_product_id = next_id en, i_warehouse_id = wid, i_quantity = qty\<rparr>]"
      "fresh s'"
      "trace s s' = [SkuLookup sku, Coerce ''price'' pv True,
                     Add (NewProduct name sku price wid), Flush,
                     Coerce ''initial_quantity'' qv True,
                     Add (NewInventory (next_id en) wid qty), Commit, Refresh]"
proof (cases "missing_fields data")
  case (Inl e)
  then show thesis using run uncaught by (simp add: create_product_def)
next
  case (Inr b)
  show thesis
  proof (cases b)
    case True
    then show thesis using run Inr missing by (simp add: create_product_def)
  next
    case False
    then have mf: "missing_fields data = Inr False" using Inr by simp
    obtain r0 s0 where tr: "create_product_try bi en data s = (r0, s0)"
      by (cases "create_product_try bi en data s")
    have out: "(r, s') = (case r0 of Inl e \<Rightarrow> (Inr (error_response e), session_rollback s0)
                                  | Inr x \<Rightarrow> (Inr x, s0))"
      using run mf tr by (simp add: create_product_def split: sum.splits)
    have fs: "pending s = []" "products (in_tx s) = []" "inventories (in_tx s) = []"
      using fr by (simp_all add: fresh_def)
    from body_shape [OF mf] show thesis
    proof
      assume "\<forall>k. py_getitem data k = Inl TypeError"
      then have k: "\<forall>k. py_getitem data k = Inl TypeError" .
      then have "r0 = Inl TypeError" "s0 = s"
        using tr by (simp_all add: create_product_try_def)
      then have "r = Inr (error_response TypeError)" "s' = session_rollback s"
        using out by simp_all
      then show thesis
        using not_an_object [OF mf k] by (simp add: fresh_def trace_def)
    next
      assume "\<forall>f \<in> set required_fields. \<exists>v. py_getitem data f = Inr v"
      then obtain name sku pv wid qv where
        g: "py_getitem data ''name'' = Inr name" "py_getitem data ''sku'' = Inr sku"
           "py_getitem data ''price'' = Inr pv" "py_getitem data ''warehouse_id'' = Inr wid"
           "py_getitem data ''initial_quantity'' = Inr qv"
        by (auto simp: required_fields_def)
      have bf: "body_fields data name sku pv wid qv"
        using mf g by (simp add: body_fields_def)
      from tr g(2) show thesis
      proof (cases rule: create_product_try_cases)
        case (lookup_failed f)
        then have "r = Inr (error_response (raised f))" "s' = session_rollback s0"
          using out by simp_all
        then show thesis
          using lookup_failed fs
          by (intro that(4) [OF bf, of f]) (simp_all add: fresh_def trace_def)
      next
        case (sku_exists p)
        then have "r = Inr (SkuExistsBody sku, 409)" "s' = s0"
          using out by simp_all
        then show thesis
          using sku_exists fs
          by (intro that(5) [OF bf, of p]) (simp_all add: fresh_def trace_def)
      next
        case (not_found s1)
        from not_found(3) g(1,2,3,4) show thesis
        proof (cases rule: create_new_product_cases)
          case (price_error e)
          then have "r = Inr (error_response e)" "s' = session_rollback s0"
            using out by simp_all
          then show thesis
            using price_error not_found fs
            by (intro that(6) [OF bf, of e]) (simp_all add: fresh_def trace_def)
        next
          case (flush_failed price f)
          then have "r = Inr (error_response (raised f))" "s' = session_rollback s0"
            using out by simp_all
          then show thesis
            using flush_failed not_found fs
            by (intro that(7) [OF bf, of price f]) (simp_all add: fresh_def trace_def)
        next
          case (flushed price s2)
          have pid: "flushed_product_id s2 = next_id en"
            using flushed not_found fs by (simp add: flushed_product_id_def)
          from flushed(3) g(4,5) show thesis
          proof (cases rule: create_inventory_cases)
            case (quantity_error e)
            then have "r = Inr (error_response e)" "s' = session_rollback s0"
              using out by simp_all
            then show thesis
              using quantity_error flushed not_found fs
              by (intro that(8) [OF bf, of price e]) (simp_all add: fresh_def trace_def)
          next
            case (commit_failed qty f)
            then have "r = Inr (error_response (raised f))" "s' = session_rollback s0"
              using out by simp_all
            then show thesis
              using commit_failed flushed not_found fs pid
              by (intro that(9) [OF bf, of price qty f]) (simp_all add: fresh_def trace_def)
          next
            case (refresh_failed qty detail)
            then have "r = Inr (error_response (DatabaseError detail))"
              "s' = session_rollback s0"
              using out by simp_all
            then show thesis
              using refresh_failed flushed not_found fs pid
              by (intro that(10) [OF bf, of price qty detail]) (simp_all add: fresh_def trace_def)
          next
            case (created qty)
            then have "r = Inr (CreatedBody ''Product created successfully'' (next_id en), 201)"
              "s' = s0"
              using out pid by simp_all
            then show thesis
              using created flushed not_found fs pid
              by (intro that(11) [OF bf, of price qty]) (simp_all add: fresh_def trace_def)
          qed
        qed
      qed
    qed
  qed
qed

section \<open>What \<open>create_product\<close> guarantees\<close>

lemma error_response_not_created [simp]: "error_response e \<noteq> (b, 201)"
  by (simp add: error_response_def)

lemmas run_defs =
  create_product_def create_product_try_def create_new_product_def create_inventory_def
  first_by_sku_def session_flush_def session_commit_def session_refresh_def session_add_def
  session_rollback_def record_event_def coerce_price_def coerce_quantity_def
  flushed_product_id_def Let_def
  missing_fields_def required_fields_def request_body_def error_response_def
  no_numeric_strings_def no_faults_def empty_session_def session_with_widget_def widget_def
  gadget_body_def trace_def fresh_def

lemma fresh_examples: "fresh empty_session" "fresh session_with_widget"
  by (simp_all add: fresh_def empty_session_def session_with_widget_def)

lemma pair_of_fst: "fst p = a \<Longrightarrow> p = (a, snd p)"
  by (cases p) simp

subsection \<open>Success is atomic\<close>

text \<open>
  C1. For every creation request that succeeds (HTTP 201), exactly one Product row and
  exactly one Inventory row are persisted, the Inventory row's \<open>product_id\<close> is the new
  Product's id and its \<open>warehouse_id\<close> is the request's, both are committed by the one
  commit of the run (the run's writes are: add the product, flush, add the inventory,
  commit), and the body carries the new product's id. Both rows persist or neither
  does, in every run and whatever it answers: the committed rows are the ones from
  before, or they are the ones from before with the two linked rows; and they are the
  ones from before unless the commit was made and went through. The session is the one
  of a fresh request.
\<close>

theorem create_product_atomic:
  assumes "fresh s" and "create_product bi en data s = (r, s')"
  shows "(\<forall>b. r = Inr (b, 201) \<longrightarrow>
            (\<exists>p i. products (committed s') = products (committed s) @ [p]
                 \<and> inventories (committed s') = inventories (committed s) @ [i]
                 \<and> i_product_id i = p_id p
                 \<and> py_getitem data ''warehouse_id'' = Inr (i_warehouse_id i)
                 \<and> b = CreatedBody ''Product created successfully'' (p_id p)
                 \<and> filter is_write (trace s s') =
                     [Add (NewProduct (p_name p) (p_sku p) (p_price p) (p_warehouse_id p)),
                      Flush,
                      Add (NewInventory (i_product_id i) (i_warehouse_id i) (i_quantity i)),
                      Commit]))
       \<and> (committed s' = committed s
            \<or> (\<exists>p i. products (committed s') = products (committed s) @ [p]
                   \<and> inventories (committed s') = inventories (committed s) @ [i]
                   \<and> i_product_id i = p_id p))
       \<and> (Commit \<notin> set (trace s s') \<or> commit_fails en \<noteq> None
            \<longrightarrow> committed s' = committed s)
       \<and> fresh s'"
  using assms(2,1)
proof (cases rule: create_product_cases)
  case (refresh_failed name sku pv wid qv price qty detail)
  let ?p = "\<lparr>p_id = next_id en, p_name = name, p_sku = sku, p_price = price,
              p_warehouse_id = wid\<rparr>"
  let ?i = "\<lparr>i_product_id = next_id en, i_warehouse_id = wid, i_quantity = qty\<rparr>"
  have "products (committed s') = products (committed s) @ [?p]
      \<and> inventories (committed s') = inventories (committed s) @ [?i]
      \<and> i_product_id ?i = p_id ?p"
    using refresh_failed by simp
  then have "\<exists>p i. products (committed s') = products (committed s) @ [p]
      \<and> inventories (committed s') = inventories (committed s) @ [i]
      \<and> i_product_id i = p_id p"
    by blast
  then show ?thesis using refresh_failed(7,9,12,13) by simp
next
  case (created name sku pv wid qv price qty)
  let ?p = "\<lparr>p_id = next_id en, p_name = name, p_sku = sku, p_price = price,
              p_warehouse_id = wid\<rparr>"
  let ?i = "\<lparr>i_product_id = next_id en, i_warehouse_id = wid, i_quantity = qty\<rparr>"
  have "products (committed s') = products (committed s) @ [?p]
      \<and> inventories (committed s') = inventories (committed s) @ [?i]
      \<and> i_product_id ?i = p_id ?p
      \<and> py_getitem data ''warehouse_id'' = Inr (i_warehouse_id ?i)
      \<and> CreatedBody ''Product created successfully'' (next_id en)
          = CreatedBody ''Product created successfully'' (p_id ?p)
      \<and> filter is_write (trace s s') =
           [Add (NewProduct (p_name ?p) (p_sku ?p) (p_price ?p) (p_warehouse_id ?p)),
            Flush,
            Add (NewInventory (i_product_id ?i) (i_warehouse_id ?i) (i_quantity ?i)),
            Commit]"
    using created by (simp add: body_fields_def is_write_def)
  then have "\<exists>p i. products (committed s') = products (committed s) @ [p]
      \<and> inventories (committed s') = inventories (committed s) @ [i]
      \<and> i_product_id i = p_id p
      \<and> py_getitem data ''warehouse_id'' = Inr (i_warehouse_id i)
      \<and> CreatedBody ''Product created successfully'' (next_id en)
          = CreatedBody ''Product created successfully'' (p_id p)
      \<and> filter is_write (trace s s') =
           [Add (NewProduct (p_name p) (p_sku p) (p_price p) (p_warehouse_id p)),
            Flush,
            Add (NewInventory (i_product_id i) (i_warehouse_id i) (i_quantity i)),
            Commit]"
    by blast
  then show ?thesis using created(7,9,12,13) by auto
qed (simp_all add: assms(1) trace_def)

lemma gadget_run_value:
  "fst gadget_run = Inr (CreatedBody ''Product created successfully'' 7, 201)"
  "committed (snd gadget_run) =
     \<lparr>products = [\<lparr>p_id = 7, p_name = JStr ''Gadget'', p_sku = JStr ''B-2'',
                     p_price = Finite (19 / 2), p_warehouse_id = JInt 3\<rparr>],
      inventories = [\<lparr>i_product_id = 7, i_warehouse_id = JInt 3, i_quantity = 5\<rparr>]\<rparr>"
  by (simp_all add: gadget_run_def run_defs)

theorem create_product_atomic_witness:
  "fresh empty_session
   \<and> fst gadget_run = Inr (CreatedBody ''Product created successfully'' 7, 201)
   \<and> (\<exists>p i. products (committed (snd gadget_run)) = products (committed empty_session) @ [p]
          \<and> inventories (committed (snd gadget_run)) =
              inventories (committed empty_session) @ [i]
          \<and> i_product_id i = p_id p
          \<and> py_getitem gadget_body ''warehouse_id'' = Inr (i_warehouse_id i)
          \<and> CreatedBody ''Product created successfully'' 7
              = CreatedBody ''Product created successfully'' (p_id p)
          \<and> filter is_write (trace empty_session (snd gadget_run)) =
              [Add (NewProduct (p_name p) (p_sku p) (p_price p) (p_warehouse_id p)),
               Flush,
               Add (NewInventory (i_product_id i) (i_warehouse_id i) (i_quantity i)),
               Commit])
   \<and> fresh (snd gadget_run)
   \<and> commit_fails (no_faults\<lparr>commit_fails := Some (Other ''connection reset by peer'')\<rparr>)
       \<noteq> None
   \<and> committed (snd outage_run) = committed empty_session"
proof -
  have e: "create_product no_numeric_strings no_faults gadget_body empty_session
             = (Inr (CreatedBody ''Product created successfully'' 7, 201), snd gadget_run)"
    using pair_of_fst [OF gadget_run_value(1)] by (simp only: gadget_run_def)
  have e': "create_product no_numeric_strings
              (no_faults\<lparr>commit_fails := Some (Other ''connection reset by peer'')\<rparr>)
              gadget_body empty_session = (fst outage_run, snd outage_run)"
    by (simp add: outage_run_def)
  have f: "commit_fails (no_faults\<lparr>commit_fails := Some (Other ''connection reset by peer'')\<rparr>)
             \<noteq> None"
    by simp
  note th = create_product_atomic [OF fresh_examples(1) e]
  note th' = create_product_atomic [OF fresh_examples(1) e']
  have "committed (snd outage_run) = committed empty_session"
    using th' f by blast
  then show ?thesis using th fresh_examples(1) gadget_run_value(1) f by blast
qed

subsection \<open>A duplicate SKU is a conflict\<close>

text \<open>
  C4. For every creation request whose SKU already exists, whether that is detected by
  the lookup before the insert (the lookup is made, goes through and finds a product
  with the SKU) or by an integrity violation that the persistence layer raises at the
  flush or the commit, the handler answers HTTP 409, the committed rows are the ones
  from before, and nothing is left in the transaction: no new Product or Inventory row
  is persisted.
\<close>

theorem duplicate_sku_conflict:
  assumes "fresh s" and "create_product bi en data s = (r, s')"
  shows "(\<forall>sku p. SkuLookup sku \<in> set (trace s s') \<and> lookup_fails en = None
             \<and> find (\<lambda>p. p_sku p = sku) (products (committed s) @ products (in_tx s)) = Some p
           \<longrightarrow> r = Inr (SkuExistsBody sku, 409) \<and> committed s' = committed s \<and> fresh s')
       \<and> (db_raised en (trace s s') = Some Integrity
           \<longrightarrow> r = Inr (ErrorBody ''Database integrity error. SKU might already exist.'', 409)
               \<and> committed s' = committed s \<and> fresh s')"
  using assms(2,1)
  by (cases rule: create_product_cases)
     (auto simp: db_raised_def is_lookup_def error_response_def trace_def)

lemma duplicate_run_value:
  "trace session_with_widget (snd duplicate_run) = [SkuLookup (JStr ''A-1'')]"
  "find (\<lambda>p. p_sku p = JStr ''A-1'')
     (products (committed session_with_widget) @ products (in_tx session_with_widget))
   = Some widget"
  "lookup_fails no_faults = None"
  by (simp_all add: duplicate_run_def run_defs)

lemma race_run_value:
  "db_raised (no_faults\<lparr>flush_fails := Some Integrity\<rparr>) (trace empty_session (snd race_run))
   = Some Integrity"
  by (simp add: race_run_def run_defs db_raised_def is_lookup_def)

theorem duplicate_sku_conflict_witness:
  "fresh session_with_widget
   \<and> SkuLookup (JStr ''A-1'') \<in> set (trace session_with_widget (snd duplicate_run))
   \<and> lookup_fails no_faults = None
   \<and> find (\<lambda>p. p_sku p = JStr ''A-1'')
        (products (committed session_with_widget) @ products (in_tx session_with_widget))
      = Some widget
   \<and> fst duplicate_run = Inr (SkuExistsBody (JStr ''A-1''), 409)
   \<and> committed (snd duplicate_run) = committed session_with_widget
   \<and> fresh (snd duplicate_run)
   \<and> fresh empty_session
   \<and> db_raised (no_faults\<lparr>flush_fails := Some Integrity\<rparr>)
        (trace empty_session (snd race_run)) = Some Integrity
   \<and> fst race_run
      = Inr (ErrorBody ''Database integrity error. SKU might already exist.'', 409)
   \<and> committed (snd race_run) = committed empty_session
   \<and> fresh (snd race_run)"
proof -
  have e1: "create_product no_numeric_strings no_faults
              (request_body (JStr ''Widget'') (JStr ''A-1'') (JFloat (Finite 2)) (JInt 3) (JInt 5))
              session_with_widget = (fst duplicate_run, snd duplicate_run)"
    by (simp add: duplicate_run_def)
  have e2: "create_product no_numeric_strings (no_faults\<lparr>flush_fails := Some Integrity\<rparr>)
              gadget_body empty_session = (fst race_run, snd race_run)"
    by (simp add: race_run_def)
  have m: "SkuLookup (JStr ''A-1'') \<in> set (trace session_with_widget (snd duplicate_run))"
    by (simp add: duplicate_run_value(1))
  note th1 = duplicate_sku_conflict [OF fresh_examples(2) e1]
  note th2 = duplicate_sku_conflict [OF fresh_examples(1) e2]
  from th1 m duplicate_run_value(2,3)
  have a: "fst duplicate_run = Inr (SkuExistsBody (JStr ''A-1''), 409)
         \<and> committed (snd duplicate_run) = committed session_with_widget
         \<and> fresh (snd duplicate_run)"
    by blast
  from th2 race_run_value
  have b: "fst race_run
             = Inr (ErrorBody ''Database integrity error. SKU might already exist.'', 409)
         \<and> committed (snd race_run) = committed empty_session \<and> fresh (snd race_run)"
    by blast
  show ?thesis
    using a b m duplicate_run_value(2,3) race_run_value fresh_examples by blast
qed

subsection \<open>Other failures of the persistence layer\<close>

text \<open>
  When the SKU lookup, the flush or the commit raises a failure other than an integrity
  violation, the handler answers HTTP 500 with the fixed message
  \<open>An unexpected error occurred.\<close>, whatever the detail of the failure; the run ends
  with the rollback, the committed rows are the ones from before and nothing is left
  in the transaction.
\<close>

lemma failure_up_to_commit_rolled_back:
  assumes "fresh s" and "create_product bi en data s = (r, s')"
    and "db_raised en (trace s s') = Some (Other detail)"
  shows "r = Inr (ErrorBody ''An unexpected error occurred.'', 500)
       \<and> committed s' = committed s \<and> fresh s' \<and> last (trace s s') = Rollback"
  using assms(2,1,3)
  by (cases rule: create_product_cases)
     (auto simp: db_raised_def is_lookup_def error_response_def trace_def)

lemma outage_run_value:
  "db_raised (no_faults\<lparr>commit_fails := Some (Other ''connection reset by peer'')\<rparr>)
     (trace empty_session (snd outage_run)) = Some (Other ''connection reset by peer'')"
  by (simp add: outage_run_def run_defs db_raised_def is_lookup_def)

lemma outage_run_rolled_back:
  "fst outage_run = Inr (ErrorBody ''An unexpected error occurred.'', 500)
   \<and> committed (snd outage_run) = committed empty_session
   \<and> fresh (snd outage_run)
   \<and> last (trace empty_session (snd outage_run)) = Rollback"
proof -
  have e: "create_product no_numeric_strings
             (no_faults\<lparr>commit_fails := Some (Other ''connection reset by peer'')\<rparr>)
             gadget_body empty_session = (fst outage_run, snd outage_run)"
    by (simp add: outage_run_def)
  show ?thesis
    using failure_up_to_commit_rolled_back [OF fresh_examples(1) e outage_run_value] .
qed

text \<open>
  C8. The claim: whenever the persistence layer raises a failure other than an
  integrity violation, the handler answers HTTP 500 with a generic message, the
  transaction is rolled back, and neither the Product nor the Inventory row is visible
  afterwards. The response of line 43 reads \<open>product.id\<close> after the commit, inside the
  \<open>try\<close>; the commit has expired the attribute, so the read is a SELECT. When the
  database fails there, the last \<open>except\<close> clause answers 500 with the generic message and
  calls the rollback, which has nothing to undo: both rows are committed.
\<close>

theorem failure_after_commit_keeps_rows:
  "fst late_outage_run = Inr (ErrorBody ''An unexpected error occurred.'', 500)
   \<and> committed empty_session = \<lparr>products = [], inventories = []\<rparr>
   \<and> committed (snd late_outage_run) =
       \<lparr>products = [\<lparr>p_id = 7, p_name = JStr ''Gadget'', p_sku = JStr ''B-2'',
                       p_price = Finite (19 / 2), p_warehouse_id = JInt 3\<rparr>],
        inventories = [\<lparr>i_product_id = 7, i_warehouse_id = JInt 3, i_quantity = 5\<rparr>]\<rparr>
   \<and> trace empty_session (snd late_outage_run) =
       [SkuLookup (JStr ''B-2''), Coerce ''price'' (JFloat (Finite (19 / 2))) True,
        Add (NewProduct (JStr ''Gadget'') (JStr ''B-2'') (Finite (19 / 2)) (JInt 3)), Flush,
        Coerce ''initial_quantity'' (JInt 5) True, Add (NewInventory 7 (JInt 3) 5), Commit,
        Refresh, Rollback]"
  by (simp add: late_outage_run_def run_defs)

subsection \<open>Values that are not numbers\<close>

text \<open>
  C6, as amended. For every creation request in which the handler gets as far as
  \<open>float(price)\<close> or \<open>int(initial_quantity)\<close> and that conversion raises \<open>ValueError\<close> or
  \<open>TypeError\<close>, the handler answers HTTP 400 with
  \<open>Invalid data type for price or initial_quantity\<close>, the committed rows are the ones
  from before and, after the rollback, nothing is left in the transaction. (The handler
  gets that far when all five fields are there and the SKU lookup goes through and finds
  no product; for \<open>initial_quantity\<close>, when the product's flush goes through as well.)
\<close>

theorem invalid_number_rejected:
  assumes "fresh s" and "create_product bi en data s = (r, s')"
  shows "(\<forall>v. Coerce ''price'' v False \<in> set (trace s s')
               \<and> (py_float bi v = Inl ValueError \<or> py_float bi v = Inl TypeError)
           \<longrightarrow> r = Inr (ErrorBody ''Invalid data type for price or initial_quantity'', 400)
               \<and> committed s' = committed s \<and> fresh s')
       \<and> (\<forall>v. Coerce ''initial_quantity'' v False \<in> set (trace s s')
               \<and> (py_int bi v = Inl ValueError \<or> py_int bi v = Inl TypeError)
           \<longrightarrow> r = Inr (ErrorBody ''Invalid data type for price or initial_quantity'', 400)
               \<and> committed s' = committed s \<and> fresh s')"
  using assms(2,1)
  by (cases rule: create_product_cases)
     (auto simp: error_response_def trace_def)

lemma null_price_run_value:
  "trace empty_session (snd null_price_run)
     = [SkuLookup (JStr ''B-2''), Coerce ''price'' JNull False, Rollback]"
  by (simp add: null_price_run_def run_defs)

lemma bad_quantity_run_value:
  "trace empty_session (snd bad_quantity_run)
     = [SkuLookup (JStr ''B-2''), Coerce ''price'' (JFloat (Finite (19 / 2))) True,
        Add (NewProduct (JStr ''Gadget'') (JStr ''B-2'') (Finite (19 / 2)) (JInt 3)), Flush,
        Coerce ''initial_quantity'' (JStr ''abc'') False, Rollback]"
  by (simp add: bad_quantity_run_def run_defs)

theorem invalid_number_rejected_witness:
  "fresh empty_session
   \<and> Coerce ''price'' JNull False \<in> set (trace empty_session (snd null_price_run))
   \<and> py_float no_numeric_strings JNull = Inl TypeError
   \<and> fst null_price_run
      = Inr (ErrorBody ''Invalid data type for price or initial_quantity'', 400)
   \<and> committed (snd null_price_run) = committed empty_session
   \<and> fresh (snd null_price_run)
   \<and> Coerce ''initial_quantity'' (JStr ''abc'') False
        \<in> set (trace empty_session (snd bad_quantity_run))
   \<and> py_int no_numeric_strings (JStr ''abc'') = Inl ValueError
   \<and> fst bad_quantity_run
      = Inr (ErrorBody ''Invalid data type for price or initial_quantity'', 400)
   \<and> committed (snd bad_quantity_run) = committed empty_session
   \<and> fresh (snd bad_quantity_run)"
proof -
  have e1: "create_product no_numeric_strings no_faults
              (request_body (JStr ''Gadget'') (JStr ''B-2'') JNull (JInt 3) (JInt 5))
              empty_session = (fst null_price_run, snd null_price_run)"
    by (simp add: null_price_run_def)
  have e2: "create_product no_numeric_strings no_faults
              (request_body (JStr ''Gadget'') (JStr ''B-2'') (JFloat (Finite (19 / 2))) (JInt 3)
                 (JStr ''abc''))
              empty_session = (fst bad_quantity_run, snd bad_quantity_run)"
    by (simp add: bad_quantity_run_def)
  have m1: "Coerce ''price'' JNull False \<in> set (trace empty_session (snd null_price_run))"
    by (simp add: null_price_run_value)
  have m2: "Coerce ''initial_quantity'' (JStr ''abc'') False
              \<in> set (trace empty_session (snd bad_quantity_run))"
    by (simp add: bad_quantity_run_value)
  have t1: "py_float no_numeric_strings JNull = Inl TypeError" by simp
  have t2: "py_int no_numeric_strings (JStr ''abc'') = Inl ValueError"
    by (simp add: no_numeric_strings_def)
  note th1 = invalid_number_rejected [OF fresh_examples(1) e1]
  note th2 = invalid_number_rejected [OF fresh_examples(1) e2]
  from th1 m1 t1
  have a: "fst null_price_run
             = Inr (ErrorBody ''Invalid data type for price or initial_quantity'', 400)
         \<and> committed (snd null_price_run) = committed empty_session
         \<and> fresh (snd null_price_run)"
    by blast
  from th2 m2 t2
  have b: "fst bad_quantity_run
             = Inr (ErrorBody ''Invalid data type for price or initial_quantity'', 400)
         \<and> committed (snd bad_quantity_run) = committed empty_session
         \<and> fresh (snd bad_quantity_run)"
    by blast
  show ?thesis using a b m1 m2 t1 t2 fresh_examples(1) by blast
qed

text \<open>
  The claim as it stands fails twice. A null price cannot be coerced, and in a request
  whose SKU is already there the answer is 409, since the lookup comes first. And the
  integer \<open>2\<^sup>1\<^sup>0\<^sup>2\<^sup>4\<close> cannot be coerced to a float either, but what \<open>float\<close> raises then
  is \<open>OverflowError\<close>, which only the last \<open>except\<close> clause catches: the answer is 500.
\<close>

lemma float_huge: "float_of_int (2 ^ 1024) = Inl OverflowError"
  by (rule float_of_int_overflow) simp

theorem invalid_number_counterexample:
  "py_float no_numeric_strings JNull = Inl TypeError
   \<and> fst null_price_duplicate_run = Inr (SkuExistsBody (JStr ''A-1''), 409)
   \<and> py_float no_numeric_strings (JInt (2 ^ 1024)) = Inl OverflowError
   \<and> fst huge_price_run = Inr (ErrorBody ''An unexpected error occurred.'', 500)"
proof -
  have a: "fst null_price_duplicate_run = Inr (SkuExistsBody (JStr ''A-1''), 409)"
    by (simp add: null_price_duplicate_run_def run_defs)
  have b: "py_float no_numeric_strings (JInt (2 ^ 1024)) = Inl OverflowError"
    by (simp only: py_float.simps float_huge)
  have c: "fst huge_price_run = Inr (ErrorBody ''An unexpected error occurred.'', 500)"
    unfolding huge_price_run_def create_product_def create_product_try_def
      create_new_product_def coerce_price_def request_body_def
    by (simp add: float_huge [simplified] first_by_sku_def missing_fields_def
          required_fields_def record_event_def no_faults_def empty_session_def
          error_response_def Let_def)
  show ?thesis using a b c by simp
qed

subsection \<open>The order of validation and writes\<close>

text \<open>The price is coerced before anything is written, in every run.\<close>

lemma price_coerced_before_writes:
  assumes "fresh s" and "create_product bi en data s = (r, s')"
  shows "writes_follow False True (trace s s')"
  using assms(2,1)
  by (cases rule: create_product_cases) (auto simp: is_write_def coerced_def trace_def)

text \<open>
  C5. The claim: validation errors are detected before any write is issued, so that no
  add, flush or insert precedes the successful coercion of both numeric fields. The
  code does otherwise: with \<open>initial_quantity = "abc"\<close> the product is added and flushed
  (its INSERT is sent) before \<open>int\<close> is called on the quantity and fails; the rollback
  comes after.
\<close>

theorem quantity_coerced_after_product_write:
  "trace empty_session (snd bad_quantity_run)
     = [SkuLookup (JStr ''B-2''), Coerce ''price'' (JFloat (Finite (19 / 2))) True,
        Add (NewProduct (JStr ''Gadget'') (JStr ''B-2'') (Finite (19 / 2)) (JInt 3)), Flush,
        Coerce ''initial_quantity'' (JStr ''abc'') False, Rollback]
   \<and> \<not> writes_follow False False (trace empty_session (snd bad_quantity_run))"
  by (simp add: bad_quantity_run_value is_write_def coerced_def)

subsection \<open>Bodies without the required fields\<close>

text \<open>
  A body that is absent (or null), or an object that lacks one of the five fields, is
  answered with 400 and nothing is touched.
\<close>

lemma all_in_object_missing:
  "f \<in> set fs \<Longrightarrow> f \<notin> fst ` set kvs \<Longrightarrow> all_in (JObj kvs) fs = Inr False"
  by (induction fs) (auto split: bool.splits)

lemma missing_field_rejected:
  assumes "f \<in> set required_fields" and "f \<notin> fst ` set kvs"
  shows "create_product bi en (JObj kvs) s
           = (Inr (ErrorBody ''Missing required fields'', 400), s)"
  using all_in_object_missing [OF assms]
  by (simp add: create_product_def missing_fields_def)

lemma no_body_rejected:
  "create_product bi en JNull s = (Inr (ErrorBody ''Missing required fields'', 400), s)"
  by (simp add: create_product_def missing_fields_def)

text \<open>
  C7. The claim: every body that misses a required field is answered with HTTP 400 and
  the database is unchanged. The body \<open>5\<close> is a JSON document with none of the fields; it
  is truthy, and \<open>'name' in 5\<close> raises \<open>TypeError\<close> in the check of line 13, outside the
  \<open>try\<close>: the handler raises instead of answering 400.
\<close>

theorem scalar_body_raises: "create_product bi en (JInt 5) s = (Inl TypeError, s)"
  by (simp add: create_product_def missing_fields_def required_fields_def)

subsection \<open>Null values\<close>

lemma all_in_object_present:
  "set fs \<subseteq> fst ` set kvs \<Longrightarrow> all_in (JObj kvs) fs = Inr True"
  by (induction fs) auto

lemma py_getitem_object_not_TypeError: "py_getitem (JObj kvs) k \<noteq> Inl TypeError"
  by (simp split: option.split)

lemma py_float_null_price: "py_float bi JNull = Inl e \<Longrightarrow> error_response e
   = (ErrorBody ''Invalid data type for price or initial_quantity'', 400)"
  by (auto simp: error_response_def)

lemma py_int_null_quantity: "py_int bi JNull = Inl e \<Longrightarrow> error_response e
   = (ErrorBody ''Invalid data type for price or initial_quantity'', 400)"
  by (auto simp: error_response_def)

text \<open>
  C10, as amended. The check of the required fields looks at the keys only: for every
  body that is an object with all five keys, whatever their values (null included), the
  check passes and the answer is never \<open>Missing required fields\<close>. The handler's first
  action is the SKU lookup, with the body's \<open>sku\<close> as it is; \<open>float\<close> and \<open>int\<close>, when the
  run gets to them, receive the body's \<open>price\<close> and \<open>initial_quantity\<close> as they are, and a
  null there is answered with 400 \<open>Invalid data type\<close>; \<open>name\<close> and \<open>warehouse_id\<close> go as
  they are into the Product and Inventory objects that are added.
\<close>

theorem null_value_passes_presence_check:
  assumes "fresh s" and "create_product bi en (JObj kvs) s = (r, s')"
    and "set required_fields \<subseteq> fst ` set kvs"
  shows "missing_fields (JObj kvs) = Inr False
       \<and> r \<noteq> Inr (ErrorBody ''Missing required fields'', 400)
       \<and> (\<exists>name sku pv wid qv evs.
             body_fields (JObj kvs) name sku pv wid qv
           \<and> trace s s' = SkuLookup sku # evs
           \<and> (\<forall>v ok. Coerce ''price'' v ok \<in> set evs \<longrightarrow> v = pv)
           \<and> (\<forall>v ok. Coerce ''initial_quantity'' v ok \<in> set evs \<longrightarrow> v = qv)
           \<and> (\<forall>n k p w. Add (NewProduct n k p w) \<in> set evs \<longrightarrow> n = name \<and> k = sku \<and> w = wid)
           \<and> (\<forall>i w q. Add (NewInventory i w q) \<in> set evs \<longrightarrow> w = wid)
           \<and> (Coerce ''price'' JNull False \<in> set evs
                \<or> Coerce ''initial_quantity'' JNull False \<in> set evs
              \<longrightarrow> r = Inr (ErrorBody ''Invalid data type for price or initial_quantity'', 400)))"
proof -
  have kv: "kvs \<noteq> []" using assms(3) by (auto simp: required_fields_def)
  have mf: "missing_fields (JObj kvs) = Inr False"
    using all_in_object_present [OF assms(3)] kv by (simp add: missing_fields_def)
  have goal: ?thesis
    if "body_fields (JObj kvs) name sku pv wid qv"
      and "trace s s' = SkuLookup sku # evs"
      and "r \<noteq> Inr (ErrorBody ''Missing required fields'', 400)"
      and "\<forall>v ok. Coerce ''price'' v ok \<in> set evs \<longrightarrow> v = pv"
      and "\<forall>v ok. Coerce ''initial_quantity'' v ok \<in> set evs \<longrightarrow> v = qv"
      and "\<forall>n k p w. Add (NewProduct n k p w) \<in> set evs \<longrightarrow> n = name \<and> k = sku \<and> w = wid"
      and "\<forall>i w q. Add (NewInventory i w q) \<in> set evs \<longrightarrow> w = wid"
      and "Coerce ''price'' JNull False \<in> set evs
             \<or> Coerce ''initial_quantity'' JNull False \<in> set evs
           \<longrightarrow> r = Inr (ErrorBody ''Invalid data type for price or initial_quantity'', 400)"
    for name sku pv wid qv evs
    using that mf by blast
  from assms(2,1) show ?thesis
  proof (cases rule: create_product_cases)
    case (uncaught e)
    then show ?thesis using mf by simp
  next
    case missing
    then show ?thesis using mf by simp
  next
    case not_an_object
    then show ?thesis using py_getitem_object_not_TypeError by blast
  next
    case (lookup_failed name sku pv wid qv f)
    show ?thesis
      by (rule goal [OF lookup_failed(1,6)]) (simp_all add: lookup_failed(3) error_response_def)
  next
    case (sku_exists name sku pv wid qv p)
    show ?thesis
      by (rule goal [OF sku_exists(1,7)]) (simp_all add: sku_exists(4))
  next
    case (price_error name sku pv wid qv e)
    show ?thesis
      using price_error(4) py_float_null_price [of bi e]
      by (intro goal [OF price_error(1,8)]) (auto simp: price_error(5) error_response_def)
  next
    case (flush_failed name sku pv wid qv price f)
    show ?thesis
      by (rule goal [OF flush_failed(1,9)]) (simp_all add: flush_failed(6) error_response_def)
  next
    case (quantity_error name sku pv wid qv price e)
    show ?thesis
      using quantity_error(6) py_int_null_quantity [of bi e]
      by (intro goal [OF quantity_error(1,10)]) (auto simp: quantity_error(7) error_response_def)
  next
    case (commit_failed name sku pv wid qv price qty f)
    show ?thesis
      by (rule goal [OF commit_failed(1,11)])
         (simp_all add: commit_failed(8) error_response_def)
  next
    case (refresh_failed name sku pv wid qv price qty detail)
    show ?thesis
      by (rule goal [OF refresh_failed(1,13)])
         (simp_all add: refresh_failed(9) error_response_def)
  next
    case (created name sku pv wid qv price qty)
    show ?thesis
      by (rule goal [OF created(1,13)]) (simp_all add: created(9))
  qed
qed

lemma null_sku_run_value:
  "trace empty_session (snd null_sku_run)
     = [SkuLookup JNull, Coerce ''price'' (JFloat (Finite (19 / 2))) True,
        Add (NewProduct (JStr ''Gadget'') JNull (Finite (19 / 2)) (JInt 3)), Flush,
        Coerce ''initial_quantity'' (JInt 5) True, Add (NewInventory 7 (JInt 3) 5), Commit,
        Refresh]"
  by (simp add: null_sku_run_def run_defs)

theorem null_value_passes_presence_check_witness:
  "fresh empty_session
   \<and> set required_fields
       \<subseteq> fst ` set [(''name'', JStr ''Gadget''), (''sku'', JNull),
                      (''price'', JFloat (Finite (19 / 2))), (''warehouse_id'', JInt 3),
                      (''initial_quantity'', JInt 5)]
   \<and> missing_fields
        (JObj [(''name'', JStr ''Gadget''), (''sku'', JNull),
               (''price'', JFloat (Finite (19 / 2))), (''warehouse_id'', JInt 3),
               (''initial_quantity'', JInt 5)]) = Inr False
   \<and> fst null_sku_run \<noteq> Inr (ErrorBody ''Missing required fields'', 400)
   \<and> (\<exists>evs. trace empty_session (snd null_sku_run) = SkuLookup JNull # evs)"
proof -
  let ?kvs = "[(''name'', JStr ''Gadget''), (''sku'', JNull),
               (''price'', JFloat (Finite (19 / 2))), (''warehouse_id'', JInt 3),
               (''initial_quantity'', JInt 5)]"
  have e: "create_product no_numeric_strings no_faults (JObj ?kvs) empty_session
             = (fst null_sku_run, snd null_sku_run)"
    by (simp add: null_sku_run_def request_body_def)
  have k: "set required_fields \<subseteq> fst ` set ?kvs"
    by (simp add: required_fields_def)
  note th = null_value_passes_presence_check [OF fresh_examples(1) e k]
  from th have a: "missing_fields (JObj ?kvs) = Inr False"
    and b: "fst null_sku_run \<noteq> Inr (ErrorBody ''Missing required fields'', 400)"
    by blast+
  have c: "\<exists>evs. trace empty_session (snd null_sku_run) = SkuLookup JNull # evs"
    by (simp add: null_sku_run_value)
  show ?thesis using a b c k fresh_examples(1) by blast
qed

text \<open>
  The claim as it stands says that the null reaches the SKU lookup or a numeric
  coercion. A null \<open>name\<close> reaches neither: the request goes through and the product is
  persisted with a null name.
\<close>

lemma null_name_run_value:
  "fst null_name_run = Inr (CreatedBody ''Product created successfully'' 7, 201)"
  "trace empty_session (snd null_name_run)
     = [SkuLookup (JStr ''B-2''), Coerce ''price'' (JFloat (Finite (19 / 2))) True,
        Add (NewProduct JNull (JStr ''B-2'') (Finite (19 / 2)) (JInt 3)), Flush,
        Coerce ''initial_quantity'' (JInt 5) True, Add (NewInventory 7 (JInt 3) 5), Commit,
        Refresh]"
  "map p_name (products (committed (snd null_name_run))) = [JNull]"
  by (simp_all add: null_name_run_def run_defs)

theorem null_name_counterexample:
  "set required_fields
     \<subseteq> fst ` set [(''name'', JNull), (''sku'', JStr ''B-2''),
                    (''price'', JFloat (Finite (19 / 2))), (''warehouse_id'', JInt 3),
                    (''initial_quantity'', JInt 5)]
   \<and> missing_fields
        (request_body JNull (JStr ''B-2'') (JFloat (Finite (19 / 2))) (JInt 3) (JInt 5))
      = Inr False
   \<and> \<not> null_reaches_lookup_or_coercion (trace empty_session (snd null_name_run))
   \<and> fst null_name_run = Inr (CreatedBody ''Product created successfully'' 7, 201)
   \<and> map p_name (products (committed (snd null_name_run))) = [JNull]"
  by (simp add: null_name_run_value null_reaches_lookup_or_coercion_def receives_null_def
        required_fields_def missing_fields_def request_body_def)

section \<open>What \<open>get_low_stock_alerts\<close> computes\<close>

subsection \<open>Days until stockout\<close>

text \<open>Without recent sales the estimate is null.\<close>

lemma days_until_stockout_null:
  "days_until_stockout q None = Inr None"
  "t \<le> 0 \<Longrightarrow> days_until_stockout q (Some t) = Inr None"
  by (simp_all add: days_until_stockout_def)

text \<open>
  C3. The claim: with \<open>total_sold > 0\<close> the emitted value is
  \<open>floor(quantity / (total_sold / 30))\<close>. The spec's example holds (quantity 5, 60 sold:
  2, lemma \<open>days_5_60\<close>), but the two divisions are binary64 divisions: for quantity 23
  and 23 units sold, \<open>23 / 30\<close> rounds up, the quotient comes out just below 30 and is
  truncated to 29, where the claim says 30.
\<close>

theorem days_until_stockout_one_short:
  "days_until_stockout 23 (Some 23) = Inr (Some 29)
   \<and> spec_days_until_stockout 23 (Some 23) = Some 30"
  by (simp add: days_23 spec_days_until_stockout_def)

subsection \<open>The rows of the query\<close>

lemma outer_join_supplier_nonempty: "outer_join_supplier sups p \<noteq> []"
  by (simp add: outer_join_supplier_def split: list.split)


lemma outer_join_supplier_dangling:
  "\<forall>s \<in> set sups. Some (sup_id s) \<noteq> prod_supplier_id p \<Longrightarrow> outer_join_supplier sups p = [None]"
  by (simp add: outer_join_supplier_def filter_empty_conv [THEN iffD2])

lemma joined_rows_iff:
  "(i, p, w, pt, s, sa) \<in> set (joined_rows since cid db) \<longleftrightarrow>
     i \<in> set (inventory_table db) \<and> p \<in> set (product_table db)
     \<and> inv_product_id i = prod_id p
     \<and> w \<in> set (warehouse_table db) \<and> inv_warehouse_id i = wh_id w
     \<and> pt \<in> set (product_type_table db) \<and> prod_type_id p = Some (pt_id pt)
     \<and> s \<in> set (outer_join_supplier (supplier_table db) p)
     \<and> sa \<in> set (sales_activity_table db)
     \<and> sale_product_id sa = inv_product_id i \<and> sale_warehouse_id sa = inv_warehouse_id i
     \<and> wh_company_id w = cid \<and> since \<le> sale_date sa
     \<and> inv_quantity i \<le> pt_low_stock_threshold pt"
  by (auto simp: joined_rows_def)

lemma filter_head: "filter P xs = y # ys \<Longrightarrow> y \<in> set xs \<and> P y"
  by (induction xs) (auto split: if_splits)

lemma aggregate_sound:
  assumes "(i, p, w, pt, s, t) \<in> set (aggregate rows)"
  shows "\<exists>sa. (i, p, w, pt, s, sa) \<in> set rows"
proof -
  let ?f = "\<lambda>k. case filter (\<lambda>r. group_key r = k) rows of
                   [] \<Rightarrow> []
                 | (i, p, w, pt, s, sa) # rest \<Rightarrow>
                     [(i, p, w, pt, s,
                       sql_sum (map (\<lambda>r. sale_quantity_sold (snd (snd (snd (snd (snd r))))))
                                  ((i, p, w, pt, s, sa) # rest)))]"
  from assms have "(i, p, w, pt, s, t) \<in> set (concat (map ?f (remdups (map group_key rows))))"
    by (simp only: aggregate_def)
  then obtain k where m: "(i, p, w, pt, s, t) \<in> set (?f k)"
    unfolding set_concat set_map by blast
  show ?thesis
  proof (cases "filter (\<lambda>r. group_key r = k) rows")
    case Nil
    then show ?thesis using m by simp
  next
    case (Cons r rest)
    obtain i' p' w' pt' s' sa' where r: "r = (i', p', w', pt', s', sa')"
      by (cases r) auto
    have "(i', p', w', pt', s', sa') \<in> set rows" using filter_head [OF Cons] r by simp
    moreover have "i' = i \<and> p' = p \<and> w' = w \<and> pt' = pt \<and> s' = s"
      using m by (simp add: Cons r)
    ultimately show ?thesis by blast
  qed
qed

lemma aggregate_complete:
  assumes "(i, p, w, pt, s, sa) \<in> set rows"
  shows "\<exists>i' p' w' pt' s' sa' t.
           (i', p', w', pt', s', sa') \<in> set rows
         \<and> group_key (i', p', w', pt', s', sa') = group_key (i, p, w, pt, s, sa)
         \<and> (i', p', w', pt', s', t) \<in> set (aggregate rows)"
proof -
  let ?k = "group_key (i, p, w, pt, s, sa)"
  let ?f = "\<lambda>k. case filter (\<lambda>r. group_key r = k) rows of
                   [] \<Rightarrow> []
                 | (i, p, w, pt, s, sa) # rest \<Rightarrow>
                     [(i, p, w, pt, s,
                       sql_sum (map (\<lambda>r. sale_quantity_sold (snd (snd (snd (snd (snd r))))))
                                  ((i, p, w, pt, s, sa) # rest)))]"
  have "(i, p, w, pt, s, sa) \<in> set (filter (\<lambda>r. group_key r = ?k) rows)"
    using assms by simp
  then obtain r rest where g: "filter (\<lambda>r. group_key r = ?k) rows = r # rest"
    by (cases "filter (\<lambda>r. group_key r = ?k) rows") auto
  obtain i' p' w' pt' s' sa' where r: "r = (i', p', w', pt', s', sa')"
    by (cases r) auto
  have rin: "r \<in> set rows" "group_key r = ?k" using filter_head [OF g] by simp_all
  have kin: "?k \<in> set (remdups (map group_key rows))" using assms by force
  obtain t where fx: "(i', p', w', pt', s', t) \<in> set (?f ?k)"
    by (simp add: g r)
  have "?f ?k \<in> set (map ?f (remdups (map group_key rows)))"
    using kin by (simp only: set_map) (rule imageI)
  with fx have "(i', p', w', pt', s', t) \<in> set (concat (map ?f (remdups (map group_key rows))))"
    unfolding set_concat by blast
  then have "(i', p', w', pt', s', t) \<in> set (aggregate rows)"
    by (simp only: aggregate_def)
  then show ?thesis using rin r by blast
qed

lemma format_alerts_pairs:
  "format_alerts rows = Inr as \<Longrightarrow>
     map (\<lambda>a. (a_product_id a, a_warehouse_id a)) as
       = map (\<lambda>(i, p, w, pt, s, t). (prod_id p, wh_id w)) rows"
  by (induction rows arbitrary: as)
     (auto simp: format_alert_def split: sum.splits prod.splits)


lemma query_pairs:
  "(pid, wid) \<in> set (map (\<lambda>(i, p, w, pt, s, t). (prod_id p, wh_id w))
                       (low_stock_query (activity_since_date now) cid db))
   \<longleftrightarrow> spec_low_stock now cid db pid wid"
proof
  have since: "activity_since_date now = now - 30 * 86400000000"
    by (simp add: activity_since_date_def recent_period_days_def)
  assume "(pid, wid) \<in> set (map (\<lambda>(i, p, w, pt, s, t). (prod_id p, wh_id w))
                       (low_stock_query (activity_since_date now) cid db))"
  then obtain i p w pt s t where
    a: "(i, p, w, pt, s, t) \<in> set (aggregate (joined_rows (activity_since_date now) cid db))"
    and k: "prod_id p = pid" "wh_id w = wid"
    by (auto simp: low_stock_query_def)
  from aggregate_sound [OF a] obtain sa where
    "(i, p, w, pt, s, sa) \<in> set (joined_rows (activity_since_date now) cid db)" ..
  then have "i \<in> set (inventory_table db)" "p \<in> set (product_table db)"
    "w \<in> set (warehouse_table db)" "pt \<in> set (product_type_table db)"
    "inv_product_id i = prod_id p" "inv_warehouse_id i = wh_id w"
    "prod_type_id p = Some (pt_id pt)" "wh_company_id w = cid"
    "inv_quantity i \<le> pt_low_stock_threshold pt"
    "sa \<in> set (sales_activity_table db)"
    "sale_product_id sa = pid" "sale_warehouse_id sa = wid"
    "now - 30 * 86400000000 \<le> sale_date sa"
    using k unfolding joined_rows_iff since by simp_all
  then show "spec_low_stock now cid db pid wid"
    using k unfolding spec_low_stock_def recent_sale_def by blast
next
  have since: "activity_since_date now = now - 30 * 86400000000"
    by (simp add: activity_since_date_def recent_period_days_def)
  assume "spec_low_stock now cid db pid wid"
  then obtain i p w pt sa where
    h: "i \<in> set (inventory_table db)" "p \<in> set (product_table db)"
       "w \<in> set (warehouse_table db)" "pt \<in> set (product_type_table db)"
       "inv_product_id i = prod_id p" "prod_id p = pid"
       "inv_warehouse_id i = wh_id w" "wh_id w = wid"
       "prod_type_id p = Some (pt_id pt)" "wh_company_id w = cid"
       "inv_quantity i \<le> pt_low_stock_threshold pt"
       "sa \<in> set (sales_activity_table db)"
       "sale_product_id sa = pid" "sale_warehouse_id sa = wid"
       "now - 30 * 86400000000 \<le> sale_date sa"
    unfolding spec_low_stock_def recent_sale_def by blast
  obtain s where s: "s \<in> set (outer_join_supplier (supplier_table db) p)"
    using outer_join_supplier_nonempty [of "supplier_table db" p]
    by (cases "outer_join_supplier (supplier_table db) p") auto
  have "(i, p, w, pt, s, sa) \<in> set (joined_rows (activity_since_date now) cid db)"
    using h s unfolding joined_rows_iff since by simp
  from aggregate_complete [OF this] obtain i' p' w' pt' s' sa' t where
    r: "group_key (i', p', w', pt', s', sa') = group_key (i, p, w, pt, s, sa)"
       "(i', p', w', pt', s', t)
          \<in> set (aggregate (joined_rows (activity_since_date now) cid db))"
    by blast
  have "prod_id p' = pid" "wh_id w' = wid" using r(1) h(6,8) by (simp_all add: group_key_def)
  then show "(pid, wid) \<in> set (map (\<lambda>(i, p, w, pt, s, t). (prod_id p, wh_id w))
                       (low_stock_query (activity_since_date now) cid db))"
    using r(2) by (force simp: low_stock_query_def)
qed

subsection \<open>Who is in the alert list\<close>

text \<open>
  C2. For every company identifier and database state, in every response of the
  handler a product/warehouse pair is in the alert list if and only if the warehouse
  belongs to the requested company, the inventory quantity is at or below the low-stock
  threshold of the product's type, and there is at least one SalesActivity record for
  that product and warehouse with \<open>sale_date\<close> in the trailing 30-day window
  (\<open>sale_date \<ge> now - 30 days\<close>); in particular an item without a recent sale is never in
  the list, and an item of a warehouse that is not the company's is never in the list.
\<close>

theorem alert_list_membership:
  assumes "get_low_stock_alerts now company_id db = Inr resp"
  shows "((pid, wid) \<in> alert_pairs resp \<longleftrightarrow> spec_low_stock now company_id db pid wid)
       \<and> (\<not> recent_sale now db pid wid \<longrightarrow> (pid, wid) \<notin> alert_pairs resp)
       \<and> ((\<forall>w \<in> set (warehouse_table db). wh_id w = wid \<longrightarrow> wh_company_id w \<noteq> company_id)
            \<longrightarrow> (pid, wid) \<notin> alert_pairs resp)"
proof -
  from assms obtain as where
    f: "format_alerts (low_stock_query (activity_since_date now) company_id db) = Inr as"
    and r: "alerts resp = as"
    by (auto simp: get_low_stock_alerts_def split: sum.splits)
  have iff: "(pid, wid) \<in> alert_pairs resp \<longleftrightarrow> spec_low_stock now company_id db pid wid"
    unfolding alert_pairs_def r format_alerts_pairs [OF f] by (rule query_pairs)
  moreover have "\<not> recent_sale now db pid wid \<longrightarrow> \<not> spec_low_stock now company_id db pid wid"
    by (auto simp: spec_low_stock_def)
  moreover have "(\<forall>w \<in> set (warehouse_table db). wh_id w = wid \<longrightarrow> wh_company_id w \<noteq> company_id)
                   \<longrightarrow> \<not> spec_low_stock now company_id db pid wid"
    by (auto simp: spec_low_stock_def)
  ultimately show ?thesis by blast
qed

lemma example_query:
  "low_stock_query (activity_since_date 100) 1 example_db =
     [(\<lparr>inv_id = 1, inv_product_id = 10, inv_warehouse_id = 20, inv_quantity = 5\<rparr>,
       \<lparr>prod_id = 10, prod_name = ''Widget'', prod_sku = ''A-1'', prod_type_id = Some 30,
         prod_supplier_id = None\<rparr>,
       \<lparr>wh_id = 20, wh_name = ''Main'', wh_company_id = 1\<rparr>,
       \<lparr>pt_id = 30, pt_low_stock_threshold = 10\<rparr>,
       None, Some 60)]"
  by (simp add: low_stock_query_def joined_rows_def outer_join_supplier_def aggregate_def
        group_key_def sql_sum_def activity_since_date_def recent_period_days_def example_db_def)

lemma example_alerts: "get_low_stock_alerts 100 1 example_db = Inr example_response"
  by (simp add: get_low_stock_alerts_def example_query format_alert_def days_5_60
        example_response_def no_supplier_def)

theorem alert_list_membership_witness:
  "get_low_stock_alerts 100 1 example_db = Inr example_response
   \<and> alert_pairs example_response = {(10, 20)}
   \<and> spec_low_stock 100 1 example_db 10 20
   \<and> \<not> recent_sale 100 example_db 11 20
   \<and> (11, 20) \<notin> alert_pairs example_response
   \<and> \<not> spec_low_stock 100 1 example_db 10 21"
proof -
  note th = alert_list_membership [OF example_alerts]
  have p: "alert_pairs example_response = {(10, 20)}"
    by (simp add: alert_pairs_def example_response_def)
  have a: "spec_low_stock 100 1 example_db 10 20"
    using th [of 10 20] p by blast
  have n: "\<not> recent_sale 100 example_db 11 20"
    by (simp add: recent_sale_def example_db_def)
  have b: "(11, 20) \<notin> alert_pairs example_response"
    using th [of 11 20] n by blast
  have c: "\<not> spec_low_stock 100 1 example_db 10 21"
    using th [of 10 21] p by simp
  show ?thesis using example_alerts p a n b c by blast
qed

subsection \<open>The shape of the response\<close>




subsection \<open>The handler responds\<close>

text \<open>
  The two theorems above speak of the handler's responses. The handler does respond
  when the quantities are 64-bit integers and the join has fewer than \<open>2\<^sup>6\<^sup>4\<close> rows: the
  only exception the loop can raise is the \<open>OverflowError\<close> of a number too large for a
  float.
\<close>

lemma sum_some_bound:
  assumes "\<forall>v. Some v \<in> set vs \<longrightarrow> \<bar>v\<bar> \<le> B" and "0 \<le> B"
  shows "\<bar>sum_list [v. Some v \<leftarrow> vs]\<bar> \<le> int (length vs) * B"
  using assms(1)
proof (induction vs)
  case Nil
  then show ?case by simp
next
  case (Cons x xs)
  have ih: "\<bar>sum_list [v. Some v \<leftarrow> xs]\<bar> \<le> int (length xs) * B" using Cons by simp
  show ?case
  proof (cases x)
    case None
    then show ?thesis using ih assms(2) by (simp add: algebra_simps)
  next
    case (Some v)
    then have "\<bar>v\<bar> \<le> B" using Cons.prems by simp
    then show ?thesis using ih Some by (simp add: algebra_simps)
  qed
qed


lemma aggregate_total:
  assumes "(i, p, w, pt, s, t) \<in> set (aggregate rows)"
  shows "\<exists>g. set g \<subseteq> set rows \<and> length g \<le> length rows
           \<and> t = sql_sum (map (\<lambda>r. sale_quantity_sold (snd (snd (snd (snd (snd r)))))) g)"
proof -
  let ?f = "\<lambda>k. case filter (\<lambda>r. group_key r = k) rows of
                   [] \<Rightarrow> []
                 | (i, p, w, pt, s, sa) # rest \<Rightarrow>
                     [(i, p, w, pt, s,
                       sql_sum (map (\<lambda>r. sale_quantity_sold (snd (snd (snd (snd (snd r))))))
                                  ((i, p, w, pt, s, sa) # rest)))]"
  from assms have "(i, p, w, pt, s, t) \<in> set (concat (map ?f (remdups (map group_key rows))))"
    by (simp only: aggregate_def)
  then obtain k where m: "(i, p, w, pt, s, t) \<in> set (?f k)"
    unfolding set_concat set_map by blast
  let ?g = "filter (\<lambda>r. group_key r = k) rows"
  have "t = sql_sum (map (\<lambda>r. sale_quantity_sold (snd (snd (snd (snd (snd r)))))) ?g)"
  proof (cases ?g)
    case Nil
    then show ?thesis using m by simp
  next
    case (Cons r rest)
    obtain i' p' w' pt' s' sa' where r: "r = (i', p', w', pt', s', sa')"
      by (cases r) auto
    show ?thesis using m by (simp add: Cons r)
  qed
  moreover have "set ?g \<subseteq> set rows" "length ?g \<le> length rows" by simp_all
  ultimately show ?thesis by blast
qed

lemma format_alerts_returns:
  "\<forall>r \<in> set rows. \<exists>a. format_alert r = Inr a \<Longrightarrow> \<exists>as. format_alerts rows = Inr as"
  by (induction rows) auto

lemma get_low_stock_alerts_responds:
  assumes q: "\<forall>i \<in> set (inventory_table db). \<bar>inv_quantity i\<bar> < 2 ^ 63"
    and v: "\<forall>sa \<in> set (sales_activity_table db).
              \<forall>n. sale_quantity_sold sa = Some n \<longrightarrow> \<bar>n\<bar> < 2 ^ 63"
    and l: "length (joined_rows (activity_since_date now) company_id db) < 2 ^ 64"
  shows "\<exists>resp. get_low_stock_alerts now company_id db = Inr resp"
proof -
  let ?rows = "joined_rows (activity_since_date now) company_id db"
  have "\<exists>a. format_alert r = Inr a" if "r \<in> set (aggregate ?rows)" for r
  proof -
    obtain i p w pt s t where r: "r = (i, p, w, pt, s, t)" by (cases r) auto
    from aggregate_sound [OF that [unfolded r]] obtain sa where
      "(i, p, w, pt, s, sa) \<in> set ?rows" ..
    then have "i \<in> set (inventory_table db)" unfolding joined_rows_iff by simp
    then have qb: "\<bar>inv_quantity i\<bar> < 2 ^ 63" using q by simp
    have "\<exists>d. days_until_stockout (inv_quantity i) t = Inr d"
    proof (cases t)
      case None
      then show ?thesis by (simp add: days_until_stockout_def)
    next
      case (Some n)
      from aggregate_total [OF that [unfolded r]] obtain g where
        g: "set g \<subseteq> set ?rows" "length g \<le> length ?rows"
           "t = sql_sum (map (\<lambda>r. sale_quantity_sold (snd (snd (snd (snd (snd r)))))) g)"
        by blast
      let ?vs = "map (\<lambda>r. sale_quantity_sold (snd (snd (snd (snd (snd r)))))) g"
      have n: "n = sum_list [v. Some v \<leftarrow> ?vs]"
        using g(3) Some by (simp add: sql_sum_def split: list.splits)
      have "\<forall>x. Some x \<in> set ?vs \<longrightarrow> \<bar>x\<bar> \<le> 2 ^ 63"
      proof (intro allI impI)
        fix x
        assume "Some x \<in> set ?vs"
        then obtain i' p' w' pt' s' sa' where
          "(i', p', w', pt', s', sa') \<in> set g" "sale_quantity_sold sa' = Some x"
          by (auto simp: image_iff)
        then have "sa' \<in> set (sales_activity_table db)" "sale_quantity_sold sa' = Some x"
          using g(1) joined_rows_iff by blast+
        then show "\<bar>x\<bar> \<le> 2 ^ 63" using v by fastforce
      qed
      then have "\<bar>n\<bar> \<le> int (length ?vs) * 2 ^ 63"
        unfolding n by (intro sum_some_bound) simp_all
      also have "\<dots> \<le> 2 ^ 64 * 2 ^ 63"
        using g(2) l by (intro mult_right_mono) simp_all
      also have "\<dots> < (2 ^ 1000 :: int)" by simp
      finally have "n < 2 ^ 1000" by simp
      then show ?thesis using days_until_stockout_returns [OF qb] Some by simp
    qed
    then show ?thesis by (auto simp: r format_alert_def)
  qed
  then have "\<exists>as. format_alerts (low_stock_query (activity_since_date now) company_id db) = Inr as"
    unfolding low_stock_query_def by (intro format_alerts_returns) blast
  then show ?thesis by (auto simp: get_low_stock_alerts_def)
qed

end
